theory Spec2Isabelle
  imports Complex_Main "HOL-Library.AList"
begin

section \<open>The types-registry publisher\<close>

text \<open>
  A shallow embedding of the script that publishes the \<^verbatim>\<open>types-registry\<close> package:
  \<^verbatim>\<open>main\<close>, \<^verbatim>\<open>isAWeekAfter\<close>, \<^verbatim>\<open>generate\<close>, \<^verbatim>\<open>publish\<close>, \<^verbatim>\<open>installForValidate\<close>,
  \<^verbatim>\<open>validate\<close>, \<^verbatim>\<open>validateIsSubset\<close>, \<^verbatim>\<open>generatePackageJson\<close>, \<^verbatim>\<open>generateRegistry\<close>
  and \<^verbatim>\<open>filterTags\<close>.

  The script is a sequence of calls to collaborators (the npm registry, the npm client,
  the file system). Every such call is recorded, in order, in the \<open>trace\<close> of the world;
  what a call answers is read from an environment that the theorems quantify over.
  A thrown exception is the \<open>Inl\<close> result of a step and ends the run with the world as it
  was at the throw. The exceptions modelled are the ones the script raises or asks for:
  \<^verbatim>\<open>assert.equal\<close>, \<^verbatim>\<open>assertDirectoriesEqual\<close>, the \<^verbatim>\<open>throw\<close> of \<^verbatim>\<open>validateIsSubset\<close>,
  \<^verbatim>\<open>readJson\<close> on a file that is not there or does not hold JSON, and the
  \<^verbatim>\<open>TypeError\<close> of reading a property of \<^verbatim>\<open>null\<close> or of applying \<^verbatim>\<open>in\<close> to a value that
  is not an object. A collaborator that fails for a reason of its own (network, disk) is
  outside the model: its call returns.
\<close>

subsection \<open>JSON values, strings that hold JSON, objects used as dictionaries\<close>

datatype json =
    JNull
  | JBool bool
  | JNumber real
  | JString string
  | JArray "json list"
  | JObject "(string \<times> json) list"

text \<open>
  A JavaScript string the script handles is either plain text or the serialisation of a
  JSON value. The serialisation is represented by the value it denotes, so that
  \<^verbatim>\<open>JSON.stringify\<close> and the parser inside \<^verbatim>\<open>readJson\<close> need no concrete syntax.
\<close>

datatype content = Plain string | JsonText json

definition JSON_stringify :: "json \<Rightarrow> content" where
  "JSON_stringify j = JsonText j"

text \<open>
  An object used as a dictionary (\<^verbatim>\<open>{ [tag: string]: string }\<close>) is the list of its own
  properties; \<^verbatim>\<open>for (const k in obj)\<close> runs over \<open>map fst obj\<close>, and \<^verbatim>\<open>obj[k]\<close> for
  an own key, or for a name that no object inherits such as \<^verbatim>\<open>latest\<close>, is \<open>map_of obj k\<close>
  (\<open>None\<close> for \<^verbatim>\<open>undefined\<close>). An object that \<^verbatim>\<open>JSON.parse\<close> returns may have an own
  property of any name, \<^verbatim>\<open>__proto__\<close> included.

  The assignment \<^verbatim>\<open>obj[k] = v\<close> to an object that started as \<^verbatim>\<open>{}\<close> stores an own
  property, except for the key \<^verbatim>\<open>__proto__\<close>: that assignment runs the setter inherited
  from \<^verbatim>\<open>Object.prototype\<close> and leaves the own properties as they were.

  The list keeps the properties in the order they were stored. JavaScript enumerates
  integer-like names before the others; that reordering is not modelled, and no theorem
  below depends on the order of the properties of an object.
\<close>

definition setProperty :: "(string \<times> 'a) list \<Rightarrow> string \<Rightarrow> 'a \<Rightarrow> (string \<times> 'a) list" where
  "setProperty obj k v = (if k = ''__proto__'' then obj else AList.update k v obj)"

type_synonym Tags = "(string \<times> string) list"

definition tagsObject :: "Tags \<Rightarrow> json" where
  "tagsObject tags = JObject (map (\<lambda>(tag, v). (tag, JString v)) tags)"

definition property :: "json \<Rightarrow> string \<Rightarrow> json option" where
  "property j k = (case j of JObject ps \<Rightarrow> map_of ps k | _ \<Rightarrow> None)"

subsection \<open>filterTags\<close>

definition filterTags :: "Tags \<Rightarrow> Tags" where
  "filterTags tags =
     (let latestTag = ''latest'';
          latestVersion = map_of tags latestTag
      in foldl (\<lambda>out tag.
                  if tag = latestTag \<or> map_of tags tag \<noteq> latestVersion
                  then (case map_of tags tag of
                          Some v \<Rightarrow> setProperty out tag v
                        | None \<Rightarrow> out)
                  else out)
               [] (map fst tags))"

subsection \<open>Versions\<close>

text \<open>
  Modelled from the spec: the class \<^verbatim>\<open>Semver\<close> (\<^verbatim>\<open>lib/versions\<close>) is not among the
  sources. The spec describes a version as "semantic, major.minor.patch"; \<open>equals\<close>
  compares the three components and \<open>versionString\<close> prints them with dots.
\<close>

record Semver =
  major :: nat
  minor :: nat
  patch :: nat

text \<open>
  The components of a version are doubles whose values are natural numbers; a component is
  represented by that natural number. \<open>show_nat\<close> is its decimal text.
\<close>

fun show_nat :: "nat \<Rightarrow> string" where
  "show_nat n =
     (if n < 10 then [''0123456789'' ! n]
      else show_nat (n div 10) @ [''0123456789'' ! (n mod 10)])"

declare show_nat.simps [simp del]

definition equals :: "Semver \<Rightarrow> Semver \<Rightarrow> bool" where
  "equals a b = (major a = major b \<and> minor a = minor b \<and> patch a = patch b)"

definition versionString :: "Semver \<Rightarrow> string" where
  "versionString v = show_nat (major v) @ ''.'' @ show_nat (minor v) @ ''.'' @ show_nat (patch v)"

subsection \<open>The staleness guard\<close>

definition millisecondsPerDay :: real where
  "millisecondsPerDay = 1000 * 60 * 60 * 24"

text \<open>
  \<open>now\<close> is the value of \<^verbatim>\<open>Date.now()\<close>, \<open>time\<close> that of \<^verbatim>\<open>time.getTime()\<close>, both in
  milliseconds; the division is that of real numbers.
\<close>

definition isAWeekAfter :: "int \<Rightarrow> int \<Rightarrow> bool" where
  "isAWeekAfter now time =
     (let diff = now - time;
          days = real_of_int diff / millisecondsPerDay
      in days > 7)"

subsection \<open>The world: directories, calls, log\<close>

text \<open>
  The three directories of the script. \<open>RegistryOutputPath\<close> is
  \<^verbatim>\<open>joinPaths(outputPath, "types-registry")\<close>, \<open>ValidateTypesRegistryPath\<close> is
  \<^verbatim>\<open>joinPaths(validateOutputPath, "node_modules", "types-registry")\<close>, which lies inside
  \<open>ValidateOutputPath\<close>. A directory is the list of its files, name and content.
\<close>

datatype path = RegistryOutputPath | ValidateOutputPath | ValidateTypesRegistryPath

type_synonym dir = "(string \<times> content) list"

fun inside :: "path \<Rightarrow> path \<Rightarrow> bool" where
  "inside ValidateTypesRegistryPath ValidateOutputPath = True"
| "inside _ _ = False"

record NpmClient =
  defaultTag :: string

datatype action =
    FetchAndProcessNpmInfo string
  | NpmClientCreate string
  | ReadTypings
  | FetchNpmInfo string
  | EmptyDir path
  | WriteJson path string json
  | WriteFile path string content
  | ReadNotNeededPackages
  | NpmInstall string path
  | ConsoleError string
  | AssertDirectoriesEqual path path
  | ReadJson path string
  | Publish NpmClient path json bool
  | Sleep nat
  | Tag string string string
  | WriteLog string "string list"

datatype error =
    AssertionError nat nat
  | DirectoriesNotEqual path path
  | Error string
  | NoSuchFile path string
  | SyntaxError path string
  | TypeError

record world =
  trace :: "action list"
  logs :: "string list"
  fs :: "path \<Rightarrow> dir"

record TypingsData =
  name :: string
  fullEscapedNpmName :: string

record NotNeededPackage =
  name :: string

record Options =
  fetchParallelism :: nat

record ProcessedNpmInfo =
  version :: Semver
  highestSemverVersion :: Semver
  contentHash :: string
  lastModified :: int

text \<open>
  What the collaborators answer during one run: the clock, the registry's record of
  \<^verbatim>\<open>types-registry\<close>, the typings, the \<^verbatim>\<open>dist-tags\<close> of each package (\<open>None\<close> when the
  registry has none), the not-needed packages, the hash function of \<^verbatim>\<open>util/util\<close>, the
  files that \<^verbatim>\<open>npm install types-registry@next\<close> puts into
  \<^verbatim>\<open>node_modules/types-registry\<close>, and what the installer prints on its error stream
  (already trimmed).

  The last three fields are answers of the JavaScript runtime that the model does not
  compute: the text of a number above \<open>2^53\<close> (shortest digits, exponent notation from
  \<open>10^21\<close>), and which names the operator \<^verbatim>\<open>in\<close> finds on an array beyond its indices and
  \<^verbatim>\<open>length\<close>, and on a function. The theorems hold whatever these are.
\<close>

record env =
  dateNow :: int
  npmInfo :: ProcessedNpmInfo
  typingsData :: "TypingsData list"
  distTags :: "string \<Rightarrow> Tags option"
  notNeededData :: "NotNeededPackage list"
  computeHash :: "content \<Rightarrow> string"
  installedFiles :: dir
  installStderr :: string
  largeNumberText :: "nat \<Rightarrow> string"
  inheritedByArrays :: "string \<Rightarrow> bool"
  inheritedByFunctions :: "string \<Rightarrow> bool"

type_synonym 'a io = "world \<Rightarrow> (error + 'a) \<times> world"

definition io_return :: "'a \<Rightarrow> 'a io" where
  "io_return x = (\<lambda>w. (Inr x, w))"

definition io_throw :: "error \<Rightarrow> 'a io" where
  "io_throw e = (\<lambda>w. (Inl e, w))"

definition io_bind :: "'a io \<Rightarrow> ('a \<Rightarrow> 'b io) \<Rightarrow> 'b io" where
  "io_bind m f = (\<lambda>w. case m w of (Inl e, w') \<Rightarrow> (Inl e, w') | (Inr x, w') \<Rightarrow> f x w')"

definition io_then :: "unit io \<Rightarrow> 'b io \<Rightarrow> 'b io" where
  "io_then m k = io_bind m (\<lambda>_. k)"

definition emit :: "action \<Rightarrow> unit io" where
  "emit a = (\<lambda>w. (Inr (), w\<lparr>trace := trace w @ [a]\<rparr>))"

subsection \<open>The collaborators\<close>

text \<open>
  Modelled from the spec: the functions of \<^verbatim>\<open>util/io\<close>, \<^verbatim>\<open>util/logging\<close>, \<^verbatim>\<open>util/util\<close>,
  \<^verbatim>\<open>lib/npm-client\<close>, \<^verbatim>\<open>lib/packages\<close> and \<^verbatim>\<open>lib/versions\<close> that the script calls are
  not among the sources. Each records its call; the file writer ("write file", "write
  JSON file", "ensure empty directory") changes the directory it is given; the registry
  info fetcher and the readers return what the environment holds.
\<close>

definition logger :: "unit io" where
  "logger = (\<lambda>w. (Inr (), w\<lparr>logs := []\<rparr>))"

definition logger_log :: "string \<Rightarrow> unit io" where
  "logger_log s = (\<lambda>w. (Inr (), w\<lparr>logs := logs w @ [s]\<rparr>))"

definition writeLog :: "string \<Rightarrow> unit io" where
  "writeLog file = (\<lambda>w. emit (WriteLog file (logs w)) w)"

definition fetchAndProcessNpmInfo :: "env \<Rightarrow> string \<Rightarrow> ProcessedNpmInfo io" where
  "fetchAndProcessNpmInfo env pkg =
     io_then (emit (FetchAndProcessNpmInfo pkg)) (io_return (npmInfo env))"

definition fetchNpmInfo_distTags :: "env \<Rightarrow> string \<Rightarrow> Tags option io" where
  "fetchNpmInfo_distTags env escapedName =
     io_then (emit (FetchNpmInfo escapedName)) (io_return (distTags env escapedName))"

definition NpmClient_create :: "string \<Rightarrow> NpmClient io" where
  "NpmClient_create tag =
     io_then (emit (NpmClientCreate tag)) (io_return \<lparr>defaultTag = tag\<rparr>)"

definition client_publish :: "NpmClient \<Rightarrow> path \<Rightarrow> json \<Rightarrow> bool \<Rightarrow> unit io" where
  "client_publish client publishedDirectory packageJson dry =
     emit (Publish client publishedDirectory packageJson dry)"

definition client_tag :: "NpmClient \<Rightarrow> string \<Rightarrow> string \<Rightarrow> string \<Rightarrow> unit io" where
  "client_tag client pkg versionStr tag = emit (Tag pkg versionStr tag)"

definition readTypings :: "env \<Rightarrow> TypingsData list io" where
  "readTypings env = io_then (emit ReadTypings) (io_return (typingsData env))"

definition readNotNeededPackages :: "env \<Rightarrow> Options \<Rightarrow> NotNeededPackage list io" where
  "readNotNeededPackages env options =
     io_then (emit ReadNotNeededPackages) (io_return (notNeededData env))"

definition sleep :: "nat \<Rightarrow> unit io" where
  "sleep seconds = emit (Sleep seconds)"

definition console_error :: "string \<Rightarrow> unit io" where
  "console_error s = emit (ConsoleError s)"

definition assert_equal :: "nat \<Rightarrow> nat \<Rightarrow> unit io" where
  "assert_equal actual expected =
     (if actual = expected then io_return () else io_throw (AssertionError actual expected))"

definition emptyDir :: "path \<Rightarrow> unit io" where
  "emptyDir p =
     io_then (emit (EmptyDir p))
       (\<lambda>w. (Inr (), w\<lparr>fs := (\<lambda>q. if q = p \<or> inside q p then [] else fs w q)\<rparr>))"

definition store :: "path \<Rightarrow> string \<Rightarrow> content \<Rightarrow> unit io" where
  "store p file c = (\<lambda>w. (Inr (), w\<lparr>fs := (fs w)(p := AList.update file c (fs w p))\<rparr>))"

definition writeFile :: "path \<Rightarrow> string \<Rightarrow> content \<Rightarrow> unit io" where
  "writeFile p file c = io_then (emit (WriteFile p file c)) (store p file c)"

definition writeJson :: "path \<Rightarrow> string \<Rightarrow> json \<Rightarrow> unit io" where
  "writeJson p file j = io_then (emit (WriteJson p file j)) (store p file (JSON_stringify j))"

definition readJson :: "path \<Rightarrow> string \<Rightarrow> json io" where
  "readJson p file =
     io_then (emit (ReadJson p file))
       (\<lambda>w. case map_of (fs w p) file of
               Some (JsonText j) \<Rightarrow> (Inr j, w)
             | Some (Plain s) \<Rightarrow> (Inl (SyntaxError p file), w)
             | None \<Rightarrow> (Inl (NoSuchFile p file), w))"

text \<open>
  \<^verbatim>\<open>execAndThrowErrors("node <npm> install types-registry@next <flags>", validateOutputPath)\<close>:
  the installer fills \<^verbatim>\<open>node_modules/types-registry\<close> with what the registry serves
  under the tag \<^verbatim>\<open>next\<close>; the call returns the trimmed error output.
\<close>

definition npm_install :: "env \<Rightarrow> string \<Rightarrow> path \<Rightarrow> string io" where
  "npm_install env pkgAtTag cwd =
     io_then (emit (NpmInstall pkgAtTag cwd))
       (\<lambda>w. (Inr (installStderr env),
              w\<lparr>fs := (fs w)(ValidateTypesRegistryPath := installedFiles env)\<rparr>))"

text \<open>
  Modelled from the spec: \<^verbatim>\<open>assertDirectoriesEqual\<close> (\<^verbatim>\<open>util/io\<close>) is not among the
  sources. The spec describes it as "recursively compare two directories for equality
  given an ignore predicate", failing fast: the two directories hold the same files with
  the same contents, the files of an ignored name apart.
\<close>

definition directoriesEqual :: "(string \<Rightarrow> bool) \<Rightarrow> dir \<Rightarrow> dir \<Rightarrow> bool" where
  "directoriesEqual ignore expected actual =
     list_all (\<lambda>f. ignore f \<or> map_of expected f = map_of actual f)
       (map fst expected @ map fst actual)"

definition assertDirectoriesEqual :: "path \<Rightarrow> path \<Rightarrow> (string \<Rightarrow> bool) \<Rightarrow> unit io" where
  "assertDirectoriesEqual expected actual ignore =
     io_then (emit (AssertDirectoriesEqual expected actual))
       (\<lambda>w. if directoriesEqual ignore (fs w expected) (fs w actual) then (Inr (), w)
            else (Inl (DirectoriesNotEqual expected actual), w))"

subsection \<open>The script\<close>

definition packageName :: string where
  "packageName = ''types-registry''"

definition readme :: content where
  "readme = Plain (''This package contains a listing of all packages published to the @types scope on NPM.''
     @ [CHR 0x0A]
     @ ''Generated by [types-publisher](https://github.com/Microsoft/types-publisher).'')"

definition generate :: "content \<Rightarrow> json \<Rightarrow> unit io" where
  "generate registry packageJson =
     io_then (emptyDir RegistryOutputPath)
    (io_then (writeJson RegistryOutputPath ''package.json'' packageJson)
    (io_then (writeFile RegistryOutputPath ''index.json'' registry)
             (writeFile RegistryOutputPath ''README.md'' readme)))"

definition installForValidate :: "env \<Rightarrow> unit io" where
  "installForValidate env =
     io_then (emptyDir ValidateOutputPath)
    (io_then (writeJson ValidateOutputPath ''package.json''
                (JObject [(''name'', JString ''validate''),
                          (''version'', JString ''0.0.0''),
                          (''description'', JString ''description''),
                          (''readme'', JString []),
                          (''license'', JString []),
                          (''repository'', JObject [])]))
    (io_bind (npm_install env ''types-registry@next'' ValidateOutputPath)
       (\<lambda>err. if err \<noteq> [] then console_error err else io_return ())))"

definition validate :: "env \<Rightarrow> unit io" where
  "validate env =
     io_then (installForValidate env)
       (assertDirectoriesEqual RegistryOutputPath ValidateTypesRegistryPath
          (\<lambda>f. f = ''package.json''))"

definition publish :: "NpmClient \<Rightarrow> json \<Rightarrow> string \<Rightarrow> bool \<Rightarrow> env \<Rightarrow> unit io" where
  "publish client packageJson versionStr dry env =
     io_then (client_publish client RegistryOutputPath packageJson dry)
    (io_then (sleep 20)
    (io_then (validate env)
             (client_tag client packageName versionStr ''latest'')))"

text \<open>
  \<^verbatim>\<open>readJson(...) as Registry\<close> is an unchecked cast: the value read is whatever JSON the
  file holds. \<open>entriesProperty x\<close> is the evaluation of \<^verbatim>\<open>x.entries\<close>: the own property
  of an object, \<^verbatim>\<open>undefined\<close> when it has none (no object inherits a property of that
  name) and for a string, a number or a boolean, the function \<^verbatim>\<open>Array.prototype.entries\<close>
  for an array, and a \<^verbatim>\<open>TypeError\<close> for \<^verbatim>\<open>null\<close>.
\<close>

datatype jsval = Undefined | Value json | ArrayEntriesFunction

definition entriesProperty :: "json \<Rightarrow> error + jsval" where
  "entriesProperty x =
     (case x of
        JObject ps \<Rightarrow> Inr (case map_of ps ''entries'' of None \<Rightarrow> Undefined | Some v \<Rightarrow> Value v)
      | JArray xs \<Rightarrow> Inr ArrayEntriesFunction
      | JNull \<Rightarrow> Inl TypeError
      | _ \<Rightarrow> Inr Undefined)"

text \<open>
  The keys that \<^verbatim>\<open>for (const key in v)\<close> runs over: the own properties of an object, the
  indices of an array or of a string, and nothing for \<^verbatim>\<open>undefined\<close>, \<^verbatim>\<open>null\<close>, a
  number, a boolean or a function (whose properties are not enumerable).
\<close>

definition forInKeys :: "jsval \<Rightarrow> string list" where
  "forInKeys v =
     (case v of
        Value (JObject es) \<Rightarrow> map fst es
      | Value (JArray xs) \<Rightarrow> map show_nat [0..<length xs]
      | Value (JString s) \<Rightarrow> map show_nat [0..<length s]
      | _ \<Rightarrow> [])"

text \<open>
  \<^verbatim>\<open>key in v\<close> looks for the property on the value and then on its prototype chain. For an
  object read from JSON the chain is \<^verbatim>\<open>Object.prototype\<close>, whose property names are listed
  here; \<^verbatim>\<open>in\<close> applied to a value that is not an object (\<^verbatim>\<open>undefined\<close>, \<^verbatim>\<open>null\<close>, a
  string, a number, a boolean) throws a \<^verbatim>\<open>TypeError\<close>.
\<close>

definition objectPrototypeNames :: "string list" where
  "objectPrototypeNames =
     [''constructor'', ''hasOwnProperty'', ''isPrototypeOf'', ''propertyIsEnumerable'',
      ''toLocaleString'', ''toString'', ''valueOf'', ''__proto__'',
      ''__defineGetter__'', ''__defineSetter__'', ''__lookupGetter__'', ''__lookupSetter__'']"

definition hasIn :: "env \<Rightarrow> string \<Rightarrow> jsval \<Rightarrow> error + bool" where
  "hasIn env key v =
     (case v of
        Value (JObject es) \<Rightarrow> Inr (key \<in> set (map fst es) \<or> key \<in> set objectPrototypeNames)
      | Value (JArray xs) \<Rightarrow>
          Inr (key \<in> set (map show_nat [0..<length xs]) \<or> key = ''length''
               \<or> inheritedByArrays env key)
      | ArrayEntriesFunction \<Rightarrow> Inr (inheritedByFunctions env key)
      | _ \<Rightarrow> Inl TypeError)"

text \<open>
  The loop of \<^verbatim>\<open>validateIsSubset\<close> over the keys of \<^verbatim>\<open>actual.entries\<close>; the condition
  evaluates \<^verbatim>\<open>expected.entries\<close>, then \<^verbatim>\<open>key in\<close> that value, and only then looks among
  the not-needed packages.
\<close>

fun unexpectedKeys :: "env \<Rightarrow> string list \<Rightarrow> json \<Rightarrow> NotNeededPackage list \<Rightarrow> unit io" where
  "unexpectedKeys env [] expected notNeeded = io_return ()"
| "unexpectedKeys env (key # keys) expected notNeeded =
     (case entriesProperty expected of
        Inl e \<Rightarrow> io_throw e
      | Inr expectedEntries \<Rightarrow>
          (case hasIn env key expectedEntries of
             Inl e \<Rightarrow> io_throw e
           | Inr present \<Rightarrow>
               if \<not> present \<and> \<not> list_ex (\<lambda>p. NotNeededPackage.name p = key) notNeeded
               then io_throw (Error (''Actual types-registry has unexpected key '' @ key))
               else unexpectedKeys env keys expected notNeeded))"

definition validateIsSubset :: "NotNeededPackage list \<Rightarrow> env \<Rightarrow> unit io" where
  "validateIsSubset notNeeded env =
     io_then (installForValidate env)
    (let indexJson = ''index.json'' in
     io_then (assertDirectoriesEqual RegistryOutputPath ValidateTypesRegistryPath
                (\<lambda>f. f = ''package.json'' \<or> f = indexJson))
    (io_bind (readJson ValidateTypesRegistryPath indexJson) (\<lambda>actual.
     io_bind (readJson RegistryOutputPath indexJson) (\<lambda>expected.
       case entriesProperty actual of
         Inl e \<Rightarrow> io_throw e
       | Inr actualEntries \<Rightarrow>
           unexpectedKeys env (forInKeys actualEntries) expected notNeeded))))"

definition generatePackageJson :: "string \<Rightarrow> string \<Rightarrow> json" where
  "generatePackageJson versionStr typesPublisherContentHash =
     JObject
       [(''name'', JString packageName),
        (''version'', JString versionStr),
        (''description'', JString ''A registry of TypeScript declaration file packages published within the @types scope.''),
        (''repository'', JObject
           [(''type'', JString ''git''),
            (''url'', JString ''https://github.com/Microsoft/types-publisher.git'')]),
        (''keywords'', JArray
           [JString ''TypeScript'', JString ''declaration'', JString ''files'',
            JString ''types'', JString ''packages'']),
        (''author'', JString ''Microsoft Corp.''),
        (''license'', JString ''MIT''),
        (''typesPublisherContentHash'', JString typesPublisherContentHash)]"

text \<open>
  \<^verbatim>\<open>generateRegistry\<close>: \<^verbatim>\<open>nAtATime\<close> runs the callback on every typing, at most
  \<^verbatim>\<open>fetchParallelism\<close> at a time. The callbacks are modelled in the order of the list; the
  loop carries the object \<^verbatim>\<open>entries\<close>. In the code the entries are stored in the order
  in which the fetches complete; the theorems below refer to the registry only as the value
  the run computed and do not depend on the order of its entries.
\<close>

fun generateRegistry_entries ::
  "env \<Rightarrow> TypingsData list \<Rightarrow> (string \<times> json) list \<Rightarrow> (string \<times> json) list io" where
  "generateRegistry_entries env [] entries = io_return entries"
| "generateRegistry_entries env (typing # rest) entries =
     io_bind (fetchNpmInfo_distTags env (fullEscapedNpmName typing)) (\<lambda>tags.
       generateRegistry_entries env rest
         (case tags of
            Some t \<Rightarrow> setProperty entries (TypingsData.name typing) (tagsObject (filterTags t))
          | None \<Rightarrow> entries))"

definition generateRegistry :: "TypingsData list \<Rightarrow> env \<Rightarrow> Options \<Rightarrow> json io" where
  "generateRegistry typings env options =
     io_bind (generateRegistry_entries env typings []) (\<lambda>entries.
       io_return (JObject [(''entries'', JObject entries)]))"

text \<open>
  \<^verbatim>\<open>oldVersion.patch + 1\<close> is an addition of doubles. For a double with the value of a
  natural number \<open>n\<close> the sum is exact below \<open>2^53 = 9007199254740992\<close>; from there to
  \<open>2^54\<close> the doubles are the even numbers and \<open>n + 1\<close> lies halfway between two of them,
  so it is rounded to the one with the even significand; from \<open>2^54\<close> on the sum is \<open>n\<close>.
  The template literal prints a number up to \<open>2^53\<close> with all its decimal digits.
\<close>

definition js_plus_one :: "nat \<Rightarrow> nat" where
  "js_plus_one n =
     (if n < 9007199254740992 then n + 1
      else if n < 18014398509481984 \<and> odd (n div 2) then n + 2
      else n)"

definition numberToString :: "env \<Rightarrow> nat \<Rightarrow> string" where
  "numberToString env n = (if n \<le> 9007199254740992 then show_nat n else largeNumberText env n)"

definition main :: "Options \<Rightarrow> bool \<Rightarrow> env \<Rightarrow> unit io" where
  "main options dry env =
     io_then logger
    (io_then (logger_log ''=== Publishing types-registry ==='')
    (io_bind (fetchAndProcessNpmInfo env packageName) (\<lambda>info.
       let oldVersion = version info;
           highest = highestSemverVersion info;
           oldContentHash = contentHash info
       in
       if \<not> isAWeekAfter (dateNow env) (lastModified info)
       then logger_log ''Was modified less than a week ago, so do nothing.''
       else
         io_bind (NpmClient_create ''next'') (\<lambda>client.
         io_bind (readTypings env) (\<lambda>typings.
         io_bind (generateRegistry typings env options) (\<lambda>reg.
           let registry = JSON_stringify reg;
               newContentHash = computeHash env registry
           in
           io_then (assert_equal (major oldVersion) 0)
          (io_then (assert_equal (minor oldVersion) 1)
          (let newVersion = ''0.1.'' @ numberToString env (js_plus_one (patch oldVersion));
               packageJson = generatePackageJson newVersion newContentHash
           in
           io_then (generate registry packageJson)
          (io_then
             (if \<not> equals highest oldVersion
              then
                io_then (logger_log ''Old version of types-registry was never tagged latest, so updating'')
               (io_bind (readNotNeededPackages env options) (\<lambda>notNeededPackages.
                io_then (validateIsSubset notNeededPackages env)
                        (client_tag client packageName (versionString highest) ''latest'')))
              else if oldContentHash \<noteq> newContentHash
              then
                io_then (logger_log ''New packages have been added, so publishing a new registry.'')
                        (publish client packageJson newVersion dry env)
              else
                io_then (logger_log ''No new packages published, so no need to publish new registry.'')
                        (validate env))
             (writeLog ''publish-registry.md''))))))))))"

section \<open>What a run computes and which calls it makes\<close>

text \<open>
  Names for the local values of \<^verbatim>\<open>main\<close>, used to state the theorems: the entries
  that \<^verbatim>\<open>generateRegistry\<close> collects (without the calls), \<^verbatim>\<open>registry\<close>,
  \<^verbatim>\<open>newContentHash\<close>, \<^verbatim>\<open>newVersion\<close>, \<^verbatim>\<open>packageJson\<close>, and the three files that
  \<^verbatim>\<open>generate\<close> leaves in the output directory. The lemma \<open>main_decision\<close> below shows
  that these are the values \<^verbatim>\<open>main\<close> works with.
\<close>

fun entriesOf :: "env \<Rightarrow> TypingsData list \<Rightarrow> (string \<times> json) list \<Rightarrow> (string \<times> json) list" where
  "entriesOf env [] entries = entries"
| "entriesOf env (typing # rest) entries =
     entriesOf env rest
       (case distTags env (fullEscapedNpmName typing) of
          Some t \<Rightarrow> setProperty entries (TypingsData.name typing) (tagsObject (filterTags t))
        | None \<Rightarrow> entries)"

definition newRegistry :: "env \<Rightarrow> content" where
  "newRegistry env = JSON_stringify (JObject [(''entries'', JObject (entriesOf env (typingsData env) []))])"

definition newContentHash :: "env \<Rightarrow> string" where
  "newContentHash env = computeHash env (newRegistry env)"

definition newVersion :: "env \<Rightarrow> string" where
  "newVersion env = ''0.1.'' @ numberToString env (js_plus_one (patch (version (npmInfo env))))"

definition newPackageJson :: "env \<Rightarrow> json" where
  "newPackageJson env = generatePackageJson (newVersion env) (newContentHash env)"

definition generatedBundle :: "env \<Rightarrow> dir" where
  "generatedBundle env = [(''package.json'', JSON_stringify (newPackageJson env)),
                 (''index.json'', newRegistry env),
                 (''README.md'', readme)]"

text \<open>
  The calls of the parts of a run, in order: the calls before the version check, those of
  \<^verbatim>\<open>generate\<close>, those of \<^verbatim>\<open>installForValidate\<close>, and the two \<^verbatim>\<open>readJson\<close> calls of
  \<^verbatim>\<open>validateIsSubset\<close>.
\<close>

definition fetchEvents :: "TypingsData list \<Rightarrow> action list" where
  "fetchEvents ts = map (\<lambda>t. FetchNpmInfo (fullEscapedNpmName t)) ts"

definition beforeDecision :: "env \<Rightarrow> action list" where
  "beforeDecision env =
     [FetchAndProcessNpmInfo packageName, NpmClientCreate ''next'', ReadTypings]
     @ fetchEvents (typingsData env)"

definition generateEvents :: "env \<Rightarrow> action list" where
  "generateEvents env =
     [EmptyDir RegistryOutputPath,
      WriteJson RegistryOutputPath ''package.json'' (newPackageJson env),
      WriteFile RegistryOutputPath ''index.json'' (newRegistry env),
      WriteFile RegistryOutputPath ''README.md'' readme]"

definition validateManifest :: json where
  "validateManifest = JObject [(''name'', JString ''validate''),
                  (''version'', JString ''0.0.0''),
                  (''description'', JString ''description''),
                  (''readme'', JString []),
                  (''license'', JString []),
                  (''repository'', JObject [])]"

definition installEvents :: "env \<Rightarrow> action list" where
  "installEvents env =
     [EmptyDir ValidateOutputPath,
      WriteJson ValidateOutputPath ''package.json''
        (JObject [(''name'', JString ''validate''),
                  (''version'', JString ''0.0.0''),
                  (''description'', JString ''description''),
                  (''readme'', JString []),
                  (''license'', JString []),
                  (''repository'', JObject [])]),
      NpmInstall ''types-registry@next'' ValidateOutputPath]
     @ (if installStderr env \<noteq> [] then [ConsoleError (installStderr env)] else [])"

definition readEvents :: "action list" where
  "readEvents = [ReadJson ValidateTypesRegistryPath ''index.json'', 
                 ReadJson RegistryOutputPath ''index.json'']"

text \<open>
  The directories after \<^verbatim>\<open>installForValidate\<close>; the world in which \<^verbatim>\<open>main\<close> reaches
  its three-way branch; the result of \<^verbatim>\<open>validateIsSubset\<close> there; and the calls that a
  run adds to the trace.
\<close>

definition installFs :: "env \<Rightarrow> (path \<Rightarrow> dir) \<Rightarrow> path \<Rightarrow> dir" where
  "installFs env f =
     (\<lambda>q. if q = ValidateOutputPath then [(''package.json'', JSON_stringify validateManifest)]
          else if q = ValidateTypesRegistryPath then installedFiles env
          else f q)"

definition decisionWorld :: "env \<Rightarrow> world \<Rightarrow> world" where
  "decisionWorld env w =
     w\<lparr>trace := trace w @ beforeDecision env @ generateEvents env,
       logs := [''=== Publishing types-registry ===''],
       fs := (fs w)(RegistryOutputPath := generatedBundle env)\<rparr>"

definition subsetResult :: "env \<Rightarrow> world \<Rightarrow> error + unit" where
  "subsetResult env w = fst (validateIsSubset (notNeededData env) env (decisionWorld env w))"

text \<open>
  The keys that the loop of \<^verbatim>\<open>validateIsSubset\<close> runs over (those of the installed
  \<^verbatim>\<open>index.json\<close>, none when the file cannot be read or holds \<^verbatim>\<open>null\<close>), and the keys
  of the index that \<^verbatim>\<open>generate\<close> wrote.
\<close>

definition installedKeys :: "env \<Rightarrow> string list" where
  "installedKeys env =
     (case map_of (installedFiles env) ''index.json'' of
        Some (JsonText a) \<Rightarrow>
          (case entriesProperty a of Inr actualEntries \<Rightarrow> forInKeys actualEntries | Inl e \<Rightarrow> [])
      | _ \<Rightarrow> [])"

definition generatedKeys :: "env \<Rightarrow> string list" where
  "generatedKeys env = map fst (entriesOf env (typingsData env) [])"

definition runEvents :: "Options \<Rightarrow> bool \<Rightarrow> env \<Rightarrow> world \<Rightarrow> action list" where
  "runEvents options dry env w = drop (length (trace w)) (trace (snd (main options dry env w)))"

abbreviation "stale env \<equiv> isAWeekAfter (dateNow env) (lastModified (npmInfo env))"

abbreviation "oldVersion env \<equiv> version (npmInfo env)"

abbreviation "highestVersion env \<equiv> highestSemverVersion (npmInfo env)"

section \<open>Example runs\<close>

text \<open>
  One typing, \<^verbatim>\<open>jquery\<close>, whose tag \<^verbatim>\<open>ts2.0\<close> points at the latest version; a hash
  function that answers \<^verbatim>\<open>xyz\<close>; published versions 0.1.5, 0.1.6, 1.0.0 and
  0.1.9007199254740992 (the patch is \<open>2^53\<close>); a registry record last modified at time 0
  and read three or ten days later. The installed package is the generated one, or has an
  older \<^verbatim>\<open>README.md\<close>, or an index with one more key (\<^verbatim>\<open>gone\<close>, the name of the
  not-needed package of \<open>retiredGone\<close>, or \<^verbatim>\<open>constructor\<close>).
\<close>

definition emptyWorld :: world where
  "emptyWorld = \<lparr>trace = [], logs = [], fs = (\<lambda>p. [])\<rparr>"

definition options5 :: Options where "options5 = \<lparr>fetchParallelism = 5\<rparr>"

definition exampleTypings :: "TypingsData list" where
  "exampleTypings = [\<lparr>TypingsData.name = ''jquery'', fullEscapedNpmName = ''@types%2fjquery''\<rparr>]"

definition exampleDistTags :: "string \<Rightarrow> Tags option" where
  "exampleDistTags pkg =
     (if pkg = ''@types%2fjquery''
      then Some [(''latest'', ''3.3.0''), (''ts2.0'', ''3.3.0''), (''ts2.1'', ''2.0.0'')]
      else None)"

definition generatedEntries :: "(string \<times> json) list" where
  "generatedEntries =
     [(''jquery'', JObject [(''latest'', JString ''3.3.0''), (''ts2.1'', JString ''2.0.0'')])]"

definition exampleIndex :: content where
  "exampleIndex = JsonText (JObject [(''entries'', JObject generatedEntries)])"

definition scenario :: "Semver \<Rightarrow> Semver \<Rightarrow> string \<Rightarrow> int \<Rightarrow> dir \<Rightarrow> env" where
  "scenario old highest oldHash nowMs files =
     \<lparr>dateNow = nowMs,
      npmInfo = \<lparr>version = old, highestSemverVersion = highest,
                 contentHash = oldHash, lastModified = 0\<rparr>,
      typingsData = exampleTypings,
      distTags = exampleDistTags,
      notNeededData = [],
      computeHash = (\<lambda>c. ''xyz''),
      installedFiles = files,
      installStderr = [],
      largeNumberText = (\<lambda>n. []),
      inheritedByArrays = (\<lambda>k. False),
      inheritedByFunctions = (\<lambda>k. False)\<rparr>"

definition v015 :: Semver where "v015 = \<lparr>major = 0, minor = 1, patch = 5\<rparr>"

definition v016 :: Semver where "v016 = \<lparr>major = 0, minor = 1, patch = 6\<rparr>"

definition v100 :: Semver where "v100 = \<lparr>major = 1, minor = 0, patch = 0\<rparr>"

definition v01big :: Semver where
  "v01big = \<lparr>major = 0, minor = 1, patch = 9007199254740992\<rparr>"

definition tenDays :: int where "tenDays = 864000000"

definition threeDays :: int where "threeDays = 259200000"

definition installedGood :: dir where
  "installedGood = [(''package.json'', Plain ''manifest as rewritten by the registry''),
                    (''index.json'', exampleIndex),
                    (''README.md'', readme)]"

definition installedStaleReadme :: dir where
  "installedStaleReadme = [(''package.json'', Plain ''manifest as rewritten by the registry''),
                    (''index.json'', exampleIndex),
                    (''README.md'', Plain ''An older description.'')]"

definition installedEntries :: "(string \<times> json) list" where
  "installedEntries =
     [(''jquery'', JObject [(''latest'', JString ''3.3.0''), (''ts2.1'', JString ''2.0.0'')]),
      (''gone'', JObject [(''latest'', JString ''1.0.0'')])]"

definition installedExtraKey :: dir where
  "installedExtraKey = [(''package.json'', Plain ''manifest as rewritten by the registry''),
                    (''index.json'', JsonText (JObject [(''entries'', JObject installedEntries)])),
                    (''README.md'', readme)]"

definition installedInheritedKey :: dir where
  "installedInheritedKey = [(''package.json'', Plain ''manifest as rewritten by the registry''),
                    (''index.json'', JsonText (JObject [(''entries'', JObject
                       [(''jquery'', JObject [(''latest'', JString ''3.3.0''), (''ts2.1'', JString ''2.0.0'')]),
                        (''constructor'', JObject [(''latest'', JString ''1.0.0'')])])])),
                    (''README.md'', readme)]"

definition retiredGone :: "NotNeededPackage list" where
  "retiredGone = [\<lparr>NotNeededPackage.name = ''gone''\<rparr>]"

definition installedExtraKeyStaleReadme :: dir where
  "installedExtraKeyStaleReadme = [(''package.json'', Plain ''manifest as rewritten by the registry''),
                    (''index.json'', JsonText (JObject [(''entries'', JObject installedEntries)])),
                    (''README.md'', Plain ''An older description.'')]"

section \<open>The steps of the script\<close>

lemmas io_defs = io_return_def io_throw_def io_bind_def io_then_def emit_def

lemma generateRegistry_entries_run:
  "generateRegistry_entries env ts entries w =
     (Inr (entriesOf env ts entries), w\<lparr>trace := trace w @ fetchEvents ts\<rparr>)"
  by (induction ts arbitrary: entries w) (simp_all add: io_defs fetchNpmInfo_distTags_def fetchEvents_def)

lemma generateRegistry_run:
  "generateRegistry ts env options w =
     (Inr (JObject [(''entries'', JObject (entriesOf env ts []))]), w\<lparr>trace := trace w @ fetchEvents ts\<rparr>)"
  by (simp add: generateRegistry_def io_bind_def io_return_def generateRegistry_entries_run)

lemma main_guard:
  assumes "\<not> isAWeekAfter (dateNow env) (lastModified (npmInfo env))"
  shows "main options dry env w =
     (Inr (), w\<lparr>trace := trace w @ [FetchAndProcessNpmInfo packageName],
                logs := [''=== Publishing types-registry ==='',
                         ''Was modified less than a week ago, so do nothing.'']\<rparr>)"
  using assms
  by (simp add: main_def io_defs logger_def logger_log_def fetchAndProcessNpmInfo_def Let_def)

lemma main_precondition:
  assumes "isAWeekAfter (dateNow env) (lastModified (npmInfo env))"
    and "major (version (npmInfo env)) \<noteq> 0 \<or> minor (version (npmInfo env)) \<noteq> 1"
  shows "main options dry env w =
     (Inl (if major (version (npmInfo env)) \<noteq> 0
           then AssertionError (major (version (npmInfo env))) 0
           else AssertionError (minor (version (npmInfo env))) 1),
      w\<lparr>trace := trace w @ beforeDecision env,
        logs := [''=== Publishing types-registry ===''] \<rparr>)"
  using assms
  by (auto simp add: main_def io_defs logger_def logger_log_def fetchAndProcessNpmInfo_def Let_def
     NpmClient_create_def readTypings_def generateRegistry_run assert_equal_def beforeDecision_def)

lemma generate_run:
  "generate registry packageJson w =
     (Inr (), w\<lparr>trace := trace w @ [EmptyDir RegistryOutputPath,
      WriteJson RegistryOutputPath ''package.json'' packageJson,
      WriteFile RegistryOutputPath ''index.json'' registry,
      WriteFile RegistryOutputPath ''README.md'' readme],
      fs := (fs w)(RegistryOutputPath := [(''package.json'', JSON_stringify packageJson),
                 (''index.json'', registry),
                 (''README.md'', readme)])\<rparr>)"
  apply (simp add: generate_def io_defs emptyDir_def writeJson_def writeFile_def store_def)
  apply (rule arg_cong[where f="\<lambda>f. w\<lparr>trace := _, fs := f\<rparr>"])
  apply (auto simp: fun_eq_iff)
  done

lemma main_decision:
  assumes "isAWeekAfter (dateNow env) (lastModified (npmInfo env))"
    and "major (version (npmInfo env)) = 0" and "minor (version (npmInfo env)) = 1"
  shows "main options dry env w =
     io_then
       (if \<not> equals (highestSemverVersion (npmInfo env)) (version (npmInfo env))
        then
          io_then (logger_log ''Old version of types-registry was never tagged latest, so updating'')
         (io_bind (readNotNeededPackages env options) (\<lambda>notNeededPackages.
          io_then (validateIsSubset notNeededPackages env)
                  (client_tag \<lparr>defaultTag = ''next''\<rparr> packageName (versionString (highestSemverVersion (npmInfo env))) ''latest'')))
        else if contentHash (npmInfo env) \<noteq> newContentHash env
        then
          io_then (logger_log ''New packages have been added, so publishing a new registry.'')
                  (publish \<lparr>defaultTag = ''next''\<rparr> (newPackageJson env) (newVersion env) dry env)
        else
          io_then (logger_log ''No new packages published, so no need to publish new registry.'')
                  (validate env))
       (writeLog ''publish-registry.md'') (decisionWorld env w)"
  using assms
  by (simp add: main_def io_defs logger_def logger_log_def fetchAndProcessNpmInfo_def Let_def
     NpmClient_create_def readTypings_def generateRegistry_run assert_equal_def beforeDecision_def
     generate_run decisionWorld_def generateEvents_def newPackageJson_def newVersion_def newContentHash_def
     newRegistry_def generatedBundle_def)

lemma inside_ValidateOutputPath: "inside q ValidateOutputPath = (q = ValidateTypesRegistryPath)"
  by (cases q) simp_all

lemma installForValidate_eq:
  "installForValidate env w =
     (Inr (), w\<lparr>trace := trace w @ installEvents env, fs := installFs env (fs w)\<rparr>)"
  by (auto simp add: installForValidate_def io_defs emptyDir_def writeJson_def store_def npm_install_def
      console_error_def installEvents_def fun_eq_iff installFs_def validateManifest_def
      inside_ValidateOutputPath intro!: world.equality)

lemma validate_eq:
  "validate env w =
     (if directoriesEqual (\<lambda>f. f = ''package.json'') (fs w RegistryOutputPath) (installedFiles env)
      then Inr () else Inl (DirectoriesNotEqual RegistryOutputPath ValidateTypesRegistryPath),
      w\<lparr>trace := trace w @ installEvents env
                  @ [AssertDirectoriesEqual RegistryOutputPath ValidateTypesRegistryPath],
        fs := installFs env (fs w)\<rparr>)"
  by (simp add: validate_def io_defs installForValidate_eq assertDirectoriesEqual_def installFs_def)

lemma unexpectedKeys_world: "snd (unexpectedKeys env keys expected nn w) = w"
  by (induction keys) (simp_all add: io_defs split: sum.splits)

lemma unexpectedKeys_fst:
  "fst (unexpectedKeys env keys expected nn w) = fst (unexpectedKeys env keys expected nn w')"
  by (induction keys) (simp_all add: io_defs split: sum.splits)

lemma validateIsSubset_snd:
  "\<exists>k. snd (validateIsSubset nn env w) =
     w\<lparr>trace := trace w @ installEvents env
                  @ [AssertDirectoriesEqual RegistryOutputPath ValidateTypesRegistryPath]
                  @ take k readEvents,
        fs := installFs env (fs w)\<rparr>
     \<and> (fst (validateIsSubset nn env w) = Inr () \<longrightarrow> k = 2)"
proof -
  let ?w = "\<lambda>k. w\<lparr>trace := trace w @ installEvents env
                  @ [AssertDirectoriesEqual RegistryOutputPath ValidateTypesRegistryPath]
                  @ take k readEvents,
        fs := installFs env (fs w)\<rparr>"
  have "(snd (validateIsSubset nn env w) = ?w 0 \<and> fst (validateIsSubset nn env w) \<noteq> Inr ())
      \<or> (snd (validateIsSubset nn env w) = ?w 1 \<and> fst (validateIsSubset nn env w) \<noteq> Inr ())
      \<or> snd (validateIsSubset nn env w) = ?w 2"
    by (auto simp add: validateIsSubset_def io_defs installForValidate_eq assertDirectoriesEqual_def
        readJson_def readEvents_def unexpectedKeys_world prod_eq_iff Let_def
        split: option.splits content.splits prod.splits sum.splits)
  then show ?thesis by blast
qed

lemma main_noop:
  assumes "isAWeekAfter (dateNow env) (lastModified (npmInfo env))"
    and "major (version (npmInfo env)) = 0" and "minor (version (npmInfo env)) = 1"
    and "equals (highestSemverVersion (npmInfo env)) (version (npmInfo env))"
    and "contentHash (npmInfo env) = newContentHash env"
  shows "main options dry env w =
    (if directoriesEqual (\<lambda>f. f = ''package.json'') (generatedBundle env) (installedFiles env) then Inr () else Inl (DirectoriesNotEqual RegistryOutputPath ValidateTypesRegistryPath),
     w\<lparr>trace := trace w @ beforeDecision env @ generateEvents env @ installEvents env
          @ [AssertDirectoriesEqual RegistryOutputPath ValidateTypesRegistryPath]
          @ (if directoriesEqual (\<lambda>f. f = ''package.json'') (generatedBundle env) (installedFiles env) then [WriteLog ''publish-registry.md''
                [''=== Publishing types-registry ==='',
                 ''No new packages published, so no need to publish new registry.'']] else []),
       logs := [''=== Publishing types-registry ==='',
                 ''No new packages published, so no need to publish new registry.''],
       fs := installFs env ((fs w)(RegistryOutputPath := generatedBundle env))\<rparr>)"
  using assms
  by (simp add: main_decision io_defs logger_log_def validate_eq decisionWorld_def writeLog_def)

lemma main_publish:
  assumes "isAWeekAfter (dateNow env) (lastModified (npmInfo env))"
    and "major (version (npmInfo env)) = 0" and "minor (version (npmInfo env)) = 1"
    and "equals (highestSemverVersion (npmInfo env)) (version (npmInfo env))"
    and "contentHash (npmInfo env) \<noteq> newContentHash env"
  shows "main options dry env w =
    (if directoriesEqual (\<lambda>f. f = ''package.json'') (generatedBundle env) (installedFiles env) then Inr () else Inl (DirectoriesNotEqual RegistryOutputPath ValidateTypesRegistryPath),
     w\<lparr>trace := trace w @ beforeDecision env @ generateEvents env 
          @ [Publish \<lparr>defaultTag = ''next''\<rparr> RegistryOutputPath (newPackageJson env) dry, Sleep 20]
          @ installEvents env
          @ [AssertDirectoriesEqual RegistryOutputPath ValidateTypesRegistryPath]
          @ (if directoriesEqual (\<lambda>f. f = ''package.json'') (generatedBundle env) (installedFiles env) then [Tag packageName (newVersion env) ''latest'',
               WriteLog ''publish-registry.md''
                [''=== Publishing types-registry ==='',
                 ''New packages have been added, so publishing a new registry.'']] else []),
       logs := [''=== Publishing types-registry ==='',
                 ''New packages have been added, so publishing a new registry.''],
       fs := installFs env ((fs w)(RegistryOutputPath := generatedBundle env))\<rparr>)"
  using assms
  by (simp add: main_decision io_defs logger_log_def validate_eq decisionWorld_def writeLog_def
      publish_def client_publish_def client_tag_def sleep_def)

lemma validateIsSubset_fst:
  "fs w RegistryOutputPath = fs w' RegistryOutputPath \<Longrightarrow>
   fst (validateIsSubset nn env w) = fst (validateIsSubset nn env w')"
  using unexpectedKeys_fst[of env _ _ nn _ _ ]
  by (auto simp add: validateIsSubset_def io_defs installForValidate_eq assertDirectoriesEqual_def
        readJson_def installFs_def Let_def
        split: option.splits content.splits prod.splits sum.splits)

lemma main_promote:
  assumes "isAWeekAfter (dateNow env) (lastModified (npmInfo env))"
    and "major (version (npmInfo env)) = 0" and "minor (version (npmInfo env)) = 1"
    and "\<not> equals (highestSemverVersion (npmInfo env)) (version (npmInfo env))"
  shows "\<exists>k. fst (main options dry env w) = subsetResult env w
     \<and> trace (snd (main options dry env w)) =
          trace w @ beforeDecision env @ generateEvents env @ [ReadNotNeededPackages]
          @ installEvents env
          @ [AssertDirectoriesEqual RegistryOutputPath ValidateTypesRegistryPath]
          @ take k readEvents
          @ (if subsetResult env w = Inr ()
             then [Tag packageName (versionString (highestSemverVersion (npmInfo env))) ''latest'',
               WriteLog ''publish-registry.md''
                [''=== Publishing types-registry ==='',
                 ''Old version of types-registry was never tagged latest, so updating'']] else [])
     \<and> fs (snd (main options dry env w)) = installFs env ((fs w)(RegistryOutputPath := generatedBundle env))
     \<and> (subsetResult env w = Inr () \<longrightarrow> k = 2)"
proof -
  define u where "u = (decisionWorld env w)\<lparr>trace := trace (decisionWorld env w) @ [ReadNotNeededPackages],
      logs := [''=== Publishing types-registry ==='',
                 ''Old version of types-registry was never tagged latest, so updating'']\<rparr>"
  have r: "fst (validateIsSubset (notNeededData env) env u) = subsetResult env w"
    unfolding subsetResult_def by (rule validateIsSubset_fst) (simp add: u_def)
  obtain k where k: "snd (validateIsSubset (notNeededData env) env u) =
     u\<lparr>trace := trace u @ installEvents env
                  @ [AssertDirectoriesEqual RegistryOutputPath ValidateTypesRegistryPath]
                  @ take k readEvents,
        fs := installFs env (fs u)\<rparr>" and k2: "fst (validateIsSubset (notNeededData env) env u) = Inr () \<longrightarrow> k = 2"
    using validateIsSubset_snd[of "notNeededData env" env u] by blast
  have m: "main options dry env w =
     io_then (io_then (validateIsSubset (notNeededData env) env)
                  (client_tag \<lparr>defaultTag = ''next''\<rparr> packageName (versionString (highestSemverVersion (npmInfo env))) ''latest''))
        (writeLog ''publish-registry.md'') u"
  proof -
    have e: "\<And>F L T. w\<lparr>fs := F, logs := L, trace := T\<rparr> = w\<lparr>fs := F, trace := T, logs := L\<rparr>"
      by (rule world.equality) simp_all
    show ?thesis
      using assms
      apply (simp add: main_decision io_defs logger_log_def readNotNeededPackages_def u_def decisionWorld_def)
      apply (simp only: e)
      done
  qed
  obtain r' w' where v: "validateIsSubset (notNeededData env) env u = (r', w')" by fastforce
  have r': "r' = subsetResult env w" using r v by simp
  have w': "w' = u\<lparr>trace := trace u @ installEvents env
                  @ [AssertDirectoriesEqual RegistryOutputPath ValidateTypesRegistryPath]
                  @ take k readEvents,
        fs := installFs env (fs u)\<rparr>" using k v by simp
  have main_eq: "main options dry env w =
     (case r' of Inl e \<Rightarrow> (Inl e, w')
      | Inr x \<Rightarrow> (Inr (), w'\<lparr>trace := trace w' @
          [Tag packageName (versionString (highestSemverVersion (npmInfo env))) ''latest'',
           WriteLog ''publish-registry.md'' (logs w')]\<rparr>))"
    by (simp add: m io_defs v client_tag_def writeLog_def split: sum.splits)
  have "fst (main options dry env w) = subsetResult env w"
    using r' by (simp add: main_eq split: sum.splits)
  moreover have "trace (snd (main options dry env w)) =
          trace w @ beforeDecision env @ generateEvents env @ [ReadNotNeededPackages]
          @ installEvents env
          @ [AssertDirectoriesEqual RegistryOutputPath ValidateTypesRegistryPath]
          @ take k readEvents
          @ (if subsetResult env w = Inr ()
             then [Tag packageName (versionString (highestSemverVersion (npmInfo env))) ''latest'',
               WriteLog ''publish-registry.md''
                [''=== Publishing types-registry ==='',
                 ''Old version of types-registry was never tagged latest, so updating'']] else [])"
    using r' by (auto simp add: main_eq w' u_def decisionWorld_def split: sum.splits)
  moreover have "fs (snd (main options dry env w)) = installFs env ((fs w)(RegistryOutputPath := generatedBundle env))"
    by (simp add: main_eq w' u_def decisionWorld_def split: sum.splits)
  moreover have "subsetResult env w = Inr () \<longrightarrow> k = 2"
    using k2 r by simp
  ultimately show ?thesis by blast
qed

subsection \<open>The loop of filterTags\<close>

lemma map_of_setProperty:
  "map_of (setProperty obj k v) = (if k = ''__proto__'' then map_of obj else (map_of obj)(k \<mapsto> v))"
  by (simp add: setProperty_def update_conv')

lemma map_of_foldl_copy:
  "map_of (foldl (\<lambda>out tag.
                  if tag = ''latest'' \<or> map_of tags tag \<noteq> lv
                  then (case map_of tags tag of
                          Some v \<Rightarrow> setProperty out tag v
                        | None \<Rightarrow> out)
                  else out) acc ks) k =
    (if k \<in> set ks \<and> (k = ''latest'' \<or> map_of tags k \<noteq> lv) \<and> map_of tags k \<noteq> None
        \<and> k \<noteq> ''__proto__''
     then map_of tags k else map_of acc k)"
  by (induction ks arbitrary: acc) (auto simp add: map_of_setProperty split: option.splits)

lemma map_of_filterTags:
  "map_of (filterTags tags) k =
     (if (k = ''latest'' \<or> map_of tags k \<noteq> map_of tags ''latest'') \<and> k \<noteq> ''__proto__''
      then map_of tags k else None)"
proof (cases "map_of tags k")
  case None
  then show ?thesis by (simp add: filterTags_def Let_def map_of_foldl_copy)
next
  case (Some v)
  then have "k \<in> fst ` set tags" by (metis map_of_eq_None_iff option.distinct(1))
  then show ?thesis using Some by (simp add: filterTags_def Let_def map_of_foldl_copy)
qed

lemma unexpectedKeys_result:
  assumes "entriesProperty expected = Inr (Value (JObject es))"
  shows "fst (unexpectedKeys env keys expected nn w) =
     (case find (\<lambda>key. key \<notin> set (map fst es) \<and> key \<notin> set objectPrototypeNames
                       \<and> key \<notin> set (map NotNeededPackage.name nn)) keys of
        None \<Rightarrow> Inr ()
      | Some key \<Rightarrow> Inl (Error (''Actual types-registry has unexpected key '' @ key)))"
  using assms by (induction keys) (auto simp add: io_defs list_ex_iff hasIn_def)

lemma validateIsSubset_keys:
  assumes "directoriesEqual (\<lambda>f. f = ''package.json'' \<or> f = ''index.json'')
             (fs w RegistryOutputPath) (installedFiles env)"
    and "map_of (installedFiles env) ''index.json'' = Some (JsonText a)"
    and "map_of (fs w RegistryOutputPath) ''index.json'' = Some (JsonText e)"
  shows "fst (validateIsSubset nn env w) =
           (case entriesProperty a of
              Inl err \<Rightarrow> Inl err
            | Inr actualEntries \<Rightarrow> fst (unexpectedKeys env (forInKeys actualEntries) e nn w))"
  using assms unexpectedKeys_fst[of env _ _ nn _ w]
  by (auto simp add: validateIsSubset_def io_defs installForValidate_eq assertDirectoriesEqual_def
        readJson_def installFs_def Let_def
        split: option.splits content.splits prod.splits sum.splits)

lemma validateIsSubset_unreadable:
  assumes "directoriesEqual (\<lambda>f. f = ''package.json'' \<or> f = ''index.json'')
             (fs w RegistryOutputPath) (installedFiles env)"
    and "\<forall>a. map_of (installedFiles env) ''index.json'' \<noteq> Some (JsonText a)"
  shows "fst (validateIsSubset nn env w) = Inl (NoSuchFile ValidateTypesRegistryPath ''index.json'')
       \<or> fst (validateIsSubset nn env w) = Inl (SyntaxError ValidateTypesRegistryPath ''index.json'')"
  using assms
  by (auto simp add: validateIsSubset_def io_defs installForValidate_eq assertDirectoriesEqual_def
        readJson_def installFs_def Let_def
        split: option.splits content.splits prod.splits sum.splits)

lemma find_SomeD: "find P xs = Some x \<Longrightarrow> x \<in> set xs \<and> P x"
  by (induction xs) (auto split: if_splits)

subsection \<open>The example runs, evaluated\<close>

lemma newRegistry_scenario: "newRegistry (scenario old highest h n files) = exampleIndex"
  by (simp add: newRegistry_def scenario_def exampleTypings_def exampleDistTags_def exampleIndex_def
      filterTags_def tagsObject_def JSON_stringify_def generatedEntries_def setProperty_def)

lemma newContentHash_scenario: "newContentHash (scenario old highest h n files) = ''xyz''"
  by (simp add: newContentHash_def scenario_def)

lemma newVersion_scenario: "newVersion (scenario v015 highest h n files) = ''0.1.6''"
  by (simp add: newVersion_def scenario_def v015_def js_plus_one_def numberToString_def
      show_nat.simps)

subsection \<open>The calls of each branch\<close>

lemma runEvents_guard:
  assumes "\<not> stale env"
  shows "runEvents options dry env w = [FetchAndProcessNpmInfo packageName]"
  by (simp add: runEvents_def main_guard[OF assms])

lemma runEvents_precondition:
  assumes "stale env" "major (oldVersion env) \<noteq> 0 \<or> minor (oldVersion env) \<noteq> 1"
  shows "runEvents options dry env w = beforeDecision env"
  by (simp add: runEvents_def main_precondition[OF assms])

lemma runEvents_noop:
  assumes "stale env" "major (oldVersion env) = 0" "minor (oldVersion env) = 1"
    "equals (highestVersion env) (oldVersion env)" "contentHash (npmInfo env) = newContentHash env"
  shows "runEvents options dry env w =
     beforeDecision env @ generateEvents env @ installEvents env
          @ [AssertDirectoriesEqual RegistryOutputPath ValidateTypesRegistryPath]
          @ (if directoriesEqual (\<lambda>f. f = ''package.json'') (generatedBundle env) (installedFiles env) then [WriteLog ''publish-registry.md''
                [''=== Publishing types-registry ==='',
                 ''No new packages published, so no need to publish new registry.'']] else [])"
  by (simp add: runEvents_def main_noop[OF assms])

lemma runEvents_publish:
  assumes "stale env" "major (oldVersion env) = 0" "minor (oldVersion env) = 1"
    "equals (highestVersion env) (oldVersion env)" "contentHash (npmInfo env) \<noteq> newContentHash env"
  shows "runEvents options dry env w =
     beforeDecision env @ generateEvents env
          @ [Publish \<lparr>defaultTag = ''next''\<rparr> RegistryOutputPath (newPackageJson env) dry, Sleep 20]
          @ installEvents env
          @ [AssertDirectoriesEqual RegistryOutputPath ValidateTypesRegistryPath]
          @ (if directoriesEqual (\<lambda>f. f = ''package.json'') (generatedBundle env) (installedFiles env) then [Tag packageName (newVersion env) ''latest'',
               WriteLog ''publish-registry.md''
                [''=== Publishing types-registry ==='',
                 ''New packages have been added, so publishing a new registry.'']] else [])"
  by (simp add: runEvents_def main_publish[OF assms])

lemma runEvents_promote:
  assumes "stale env" "major (oldVersion env) = 0" "minor (oldVersion env) = 1"
    "\<not> equals (highestVersion env) (oldVersion env)"
  shows "\<exists>k. runEvents options dry env w =
          beforeDecision env @ generateEvents env @ [ReadNotNeededPackages]
          @ installEvents env
          @ [AssertDirectoriesEqual RegistryOutputPath ValidateTypesRegistryPath]
          @ take k readEvents
          @ (if subsetResult env w = Inr ()
             then [Tag packageName (versionString (highestVersion env)) ''latest'',
               WriteLog ''publish-registry.md''
                [''=== Publishing types-registry ==='',
                 ''Old version of types-registry was never tagged latest, so updating'']] else [])
      \<and> (subsetResult env w = Inr () \<longrightarrow> k = 2)"
proof -
  obtain k where k: "trace (snd (main options dry env w)) =
          trace w @ beforeDecision env @ generateEvents env @ [ReadNotNeededPackages]
          @ installEvents env
          @ [AssertDirectoriesEqual RegistryOutputPath ValidateTypesRegistryPath]
          @ take k readEvents
          @ (if subsetResult env w = Inr ()
             then [Tag packageName (versionString (highestVersion env)) ''latest'',
               WriteLog ''publish-registry.md''
                [''=== Publishing types-registry ==='',
                 ''Old version of types-registry was never tagged latest, so updating'']] else [])"
    and k2: "subsetResult env w = Inr () \<longrightarrow> k = 2"
    using main_promote[OF assms, of options dry w] by blast
  show ?thesis
    by (rule exI[where x=k]) (simp add: runEvents_def k k2)
qed

lemma Publish_notin [simp]:
  "Publish c d j b \<notin> set (beforeDecision env)"
  "Publish c d j b \<notin> set (generateEvents env)"
  "Publish c d j b \<notin> set (installEvents env)"
  "Publish c d j b \<notin> set (take k readEvents)"
  by (auto simp add: beforeDecision_def fetchEvents_def generateEvents_def installEvents_def
      readEvents_def dest: in_set_takeD)

lemma Tag_notin [simp]:
  "Tag p v t \<notin> set (beforeDecision env)"
  "Tag p v t \<notin> set (generateEvents env)"
  "Tag p v t \<notin> set (installEvents env)"
  "Tag p v t \<notin> set (take k readEvents)"
  by (auto simp add: beforeDecision_def fetchEvents_def generateEvents_def installEvents_def
      readEvents_def dest: in_set_takeD)

lemma validation_notin_beforeDecision [simp]:
  "NpmInstall s p \<notin> set (beforeDecision env)"
  "AssertDirectoriesEqual p q \<notin> set (beforeDecision env)"
  "WriteJson p f j \<notin> set (beforeDecision env)"
  "WriteFile p f c \<notin> set (beforeDecision env)"
  "EmptyDir p \<notin> set (beforeDecision env)"
  by (auto simp add: beforeDecision_def fetchEvents_def)

lemma readEvents_take2: "take 2 readEvents = readEvents"
  by (simp add: readEvents_def)

lemma newVersion_increment:
  assumes "major v = 0" "minor v = 1" "patch v < 9007199254740992"
  shows "''0.1.'' @ numberToString env (js_plus_one (patch v))
           = versionString (v\<lparr>patch := patch v + 1\<rparr>)"
  using assms
  by (simp add: versionString_def show_nat.simps js_plus_one_def numberToString_def)

lemma WriteJson_output:
  "WriteJson RegistryOutputPath f j \<in> set (generateEvents env) \<longleftrightarrow> f = ''package.json'' \<and> j = newPackageJson env"
  "WriteJson RegistryOutputPath f j \<notin> set (installEvents env)"
  "WriteJson RegistryOutputPath f j \<notin> set (take k readEvents)"
  by (auto simp add: generateEvents_def installEvents_def readEvents_def dest: in_set_takeD)

lemma scenario_fields [simp]:
  "dateNow (scenario old highest h n files) = n"
  "version (npmInfo (scenario old highest h n files)) = old"
  "highestSemverVersion (npmInfo (scenario old highest h n files)) = highest"
  "contentHash (npmInfo (scenario old highest h n files)) = h"
  "lastModified (npmInfo (scenario old highest h n files)) = 0"
  "installedFiles (scenario old highest h n files) = files"
  "notNeededData (scenario old highest h n files) = []"
  "installStderr (scenario old highest h n files) = []"
  "typingsData (scenario old highest h n files) = exampleTypings"
  by (simp_all add: scenario_def)

lemma stale_tenDays: "isAWeekAfter tenDays 0"
  by (simp add: tenDays_def isAWeekAfter_def millisecondsPerDay_def)

lemma versions [simp]:
  "major v015 = 0" "minor v015 = 1" "patch v015 = 5"
  "major v016 = 0" "minor v016 = 1" "patch v016 = 6"
  "major v100 = 1" "minor v100 = 0" "patch v100 = 0"
  "major v01big = 0" "minor v01big = 1" "patch v01big = 9007199254740992"
  by (simp_all add: v015_def v016_def v100_def v01big_def)

lemma installedStaleReadme_invalid:
  "\<not> directoriesEqual (\<lambda>f. f = ''package.json'') (generatedBundle (scenario old highest h n installedStaleReadme)) installedStaleReadme"
  unfolding generatedBundle_def newRegistry_scenario
  by (simp add: installedStaleReadme_def directoriesEqual_def readme_def)

lemma installedGood_valid:
  "directoriesEqual (\<lambda>f. f = ''package.json'') (generatedBundle (scenario old highest h n installedGood)) installedGood"
  unfolding generatedBundle_def newRegistry_scenario
  by (simp add: installedGood_def directoriesEqual_def)

lemma installFs_output [simp]: "installFs env f RegistryOutputPath = f RegistryOutputPath"
  by (simp add: installFs_def)

lemma branch_notin_generateEvents [simp]:
  "NpmInstall s p \<notin> set (generateEvents env)"
  "AssertDirectoriesEqual p q \<notin> set (generateEvents env)"
  "ReadNotNeededPackages \<notin> set (generateEvents env)"
  "ReadNotNeededPackages \<notin> set (beforeDecision env)"
  by (auto simp add: beforeDecision_def fetchEvents_def generateEvents_def)

lemma generated_index:
  "map_of (fs (decisionWorld env w) RegistryOutputPath) ''index.json'' =
     Some (JsonText (JObject [(''entries'', JObject (entriesOf env (typingsData env) []))]))"
  by (simp add: decisionWorld_def generatedBundle_def newRegistry_def JSON_stringify_def)

lemma generated_entriesProperty:
  "entriesProperty (JObject [(''entries'', JObject es)]) = Inr (Value (JObject es))"
  by (simp add: entriesProperty_def)

lemma entriesProperty_cases:
  "(a = JNull \<and> entriesProperty a = Inl TypeError) \<or> (a \<noteq> JNull \<and> (\<exists>v. entriesProperty a = Inr v))"
  by (cases a) (simp_all add: entriesProperty_def)

lemma subsetResult_keys:
  assumes "directoriesEqual (\<lambda>f. f = ''package.json'' \<or> f = ''index.json'')
             (generatedBundle env) (installedFiles env)"
    and "map_of (installedFiles env) ''index.json'' = Some (JsonText a)"
    and "a \<noteq> JNull"
  shows "subsetResult env w =
     (case find (\<lambda>key. key \<notin> set (generatedKeys env) \<and> key \<notin> set objectPrototypeNames
                       \<and> key \<notin> set (map NotNeededPackage.name (notNeededData env)))
                (installedKeys env) of
        None \<Rightarrow> Inr ()
      | Some key \<Rightarrow> Inl (Error (''Actual types-registry has unexpected key '' @ key)))"
proof -
  have t: "directoriesEqual (\<lambda>f. f = ''package.json'' \<or> f = ''index.json'')
             (fs (decisionWorld env w) RegistryOutputPath) (installedFiles env)"
    using assms(1) by (simp add: decisionWorld_def)
  from assms(3) entriesProperty_cases[of a] obtain v where v: "entriesProperty a = Inr v"
    by blast
  have k: "installedKeys env = forInKeys v"
    using assms(2) v by (simp add: installedKeys_def)
  show ?thesis
    unfolding subsetResult_def validateIsSubset_keys[OF t assms(2) generated_index]
      unexpectedKeys_result[OF generated_entriesProperty] k generatedKeys_def v
    by simp
qed

lemma subsetResult_null:
  assumes "directoriesEqual (\<lambda>f. f = ''package.json'' \<or> f = ''index.json'')
             (generatedBundle env) (installedFiles env)"
    and "map_of (installedFiles env) ''index.json'' = Some (JsonText JNull)"
  shows "subsetResult env w = Inl TypeError \<and> installedKeys env = []"
proof -
  have t: "directoriesEqual (\<lambda>f. f = ''package.json'' \<or> f = ''index.json'')
             (fs (decisionWorld env w) RegistryOutputPath) (installedFiles env)"
    using assms(1) by (simp add: decisionWorld_def)
  have "installedKeys env = []"
    using assms(2) by (simp add: installedKeys_def entriesProperty_def)
  then show ?thesis
    unfolding subsetResult_def validateIsSubset_keys[OF t assms(2) generated_index]
    by (simp add: entriesProperty_def)
qed

lemma subsetResult_unreadable:
  assumes "directoriesEqual (\<lambda>f. f = ''package.json'' \<or> f = ''index.json'')
             (generatedBundle env) (installedFiles env)"
    and "\<forall>a. map_of (installedFiles env) ''index.json'' \<noteq> Some (JsonText a)"
  shows "subsetResult env w \<noteq> Inl (Error m) \<and> installedKeys env = []"
proof -
  have t: "directoriesEqual (\<lambda>f. f = ''package.json'' \<or> f = ''index.json'')
             (fs (decisionWorld env w) RegistryOutputPath) (installedFiles env)"
    using assms(1) by (simp add: decisionWorld_def)
  have "installedKeys env = []"
    using assms(2) by (auto simp add: installedKeys_def split: option.splits content.splits)
  then show ?thesis
    using validateIsSubset_unreadable[OF t assms(2), of "notNeededData env"]
    by (auto simp add: subsetResult_def)
qed

lemma installedKeys_good: "installedKeys (scenario old highest h n installedGood) = [''jquery'']"
  by (simp add: installedKeys_def installedGood_def exampleIndex_def entriesProperty_def
      forInKeys_def generatedEntries_def)

lemma generatedKeys_scenario: "generatedKeys (scenario old highest h n files) = [''jquery'']"
  using newRegistry_scenario[of old highest h n files]
  by (simp add: generatedKeys_def newRegistry_def JSON_stringify_def exampleIndex_def
      generatedEntries_def)

lemma subsetResult_good:
  "subsetResult (scenario old highest h n installedGood) emptyWorld = Inr ()"
proof -
  let ?env = "scenario old highest h n installedGood"
  have t: "directoriesEqual (\<lambda>f. f = ''package.json'' \<or> f = ''index.json'')
            (generatedBundle ?env) (installedFiles ?env)"
    unfolding generatedBundle_def newRegistry_scenario
    by (simp add: installedGood_def directoriesEqual_def)
  have f: "map_of (installedFiles ?env) ''index.json'' = Some (JsonText (JObject [(''entries'', JObject generatedEntries)]))"
    by (simp add: installedGood_def exampleIndex_def)
  have n: "JObject [(''entries'', JObject generatedEntries)] \<noteq> JNull"
    by simp
  show ?thesis
    unfolding subsetResult_keys[OF t f n] installedKeys_good generatedKeys_scenario
    by simp
qed

lemma newRegistry_retired:
  "newRegistry ((scenario old highest h n files)\<lparr>notNeededData := nn\<rparr>) = exampleIndex"
  by (simp add: newRegistry_def scenario_def exampleTypings_def exampleDistTags_def exampleIndex_def
      filterTags_def tagsObject_def JSON_stringify_def generatedEntries_def setProperty_def)

lemma generatedKeys_retired:
  "generatedKeys ((scenario old highest h n files)\<lparr>notNeededData := nn\<rparr>) = [''jquery'']"
  using newRegistry_retired[of nn old highest h n files]
  by (simp add: generatedKeys_def newRegistry_def JSON_stringify_def exampleIndex_def
      generatedEntries_def)

lemma installedKeys_extra:
  "installedKeys (scenario old highest h n installedExtraKey) = [''jquery'', ''gone'']"
  "installedKeys ((scenario old highest h n installedExtraKey)\<lparr>notNeededData := nn\<rparr>)
     = [''jquery'', ''gone'']"
  by (simp_all add: installedKeys_def installedExtraKey_def entriesProperty_def forInKeys_def
      installedEntries_def)

lemma inherited_key_accepted:
  "subsetResult (scenario v015 v016 ''abc'' tenDays installedInheritedKey) emptyWorld = Inr ()
   \<and> ''constructor'' \<in> set (installedKeys (scenario v015 v016 ''abc'' tenDays installedInheritedKey))
   \<and> ''constructor'' \<notin> set (generatedKeys (scenario v015 v016 ''abc'' tenDays installedInheritedKey))
   \<and> notNeededData (scenario v015 v016 ''abc'' tenDays installedInheritedKey) = []"
proof -
  let ?env = "scenario v015 v016 ''abc'' tenDays installedInheritedKey"
  let ?a = "JObject [(''entries'', JObject
                       [(''jquery'', JObject [(''latest'', JString ''3.3.0''), (''ts2.1'', JString ''2.0.0'')]),
                        (''constructor'', JObject [(''latest'', JString ''1.0.0'')])])]"
  have t: "directoriesEqual (\<lambda>f. f = ''package.json'' \<or> f = ''index.json'')
            (generatedBundle ?env) (installedFiles ?env)"
    unfolding generatedBundle_def newRegistry_scenario
    by (simp add: installedInheritedKey_def directoriesEqual_def)
  have f: "map_of (installedFiles ?env) ''index.json'' = Some (JsonText ?a)"
    by (simp add: installedInheritedKey_def)
  have n: "?a \<noteq> JNull" by simp
  have k: "installedKeys ?env = [''jquery'', ''constructor'']"
    by (simp add: installedKeys_def installedInheritedKey_def entriesProperty_def forInKeys_def)
  have "subsetResult ?env emptyWorld = Inr ()"
    unfolding subsetResult_keys[OF t f n] k generatedKeys_scenario
    by (simp add: objectPrototypeNames_def)
  then show ?thesis by (simp add: k generatedKeys_scenario)
qed

lemma subsetResult_mismatch:
  assumes "\<not> directoriesEqual (\<lambda>f. f = ''package.json'' \<or> f = ''index.json'')
             (generatedBundle env) (installedFiles env)"
  shows "subsetResult env w = Inl (DirectoriesNotEqual RegistryOutputPath ValidateTypesRegistryPath)"
  using assms
  by (simp add: subsetResult_def validateIsSubset_def io_defs installForValidate_eq
      assertDirectoriesEqual_def installFs_def Let_def decisionWorld_def)

lemma newVersion_big: "newVersion (scenario v01big highest h n files) = ''0.1.9007199254740992''"
  by (simp add: newVersion_def scenario_def v01big_def js_plus_one_def numberToString_def
      show_nat.simps)

lemma filterTags_unchanged:
  assumes "map_of tags ''latest'' = None" and "map_of tags ''__proto__'' = None"
  shows "map_of (filterTags tags) = map_of tags"
proof
  fix k
  show "map_of (filterTags tags) k = map_of tags k"
    using assms by (cases "map_of tags k") (auto simp add: map_of_filterTags)
qed

lemma main_extends_trace:
  "trace (snd (main options dry env w)) = trace w @ runEvents options dry env w"
proof (cases "stale env")
  case False
  then show ?thesis by (simp add: runEvents_def main_guard)
next
  case True
  note st = this
  show ?thesis
  proof (cases "major (oldVersion env) = 0 \<and> minor (oldVersion env) = 1")
    case False
    then have "major (oldVersion env) \<noteq> 0 \<or> minor (oldVersion env) \<noteq> 1" by simp
    from main_precondition[OF st this, of options dry w] show ?thesis
      by (simp add: runEvents_def)
  next
    case True
    then have ma: "major (oldVersion env) = 0" and mi: "minor (oldVersion env) = 1" by simp_all
    show ?thesis
    proof (cases "equals (highestVersion env) (oldVersion env)")
      case False
      from main_promote[OF st ma mi False, of options dry w] show ?thesis
        by (auto simp add: runEvents_def)
    next
      case True
      show ?thesis
      proof (cases "contentHash (npmInfo env) = newContentHash env")
        case True
        from main_noop[OF st ma mi \<open>equals (highestVersion env) (oldVersion env)\<close> True, of options dry w]
        show ?thesis by (simp add: runEvents_def)
      next
        case False
        from main_publish[OF st ma mi \<open>equals (highestVersion env) (oldVersion env)\<close> False, of options dry w]
        show ?thesis by (simp add: runEvents_def)
      qed
    qed
  qed
qed

section \<open>The claims\<close>

subsection \<open>C1: the order of the publish branch\<close>

text \<open>
  Claim C1. In the publish branch (the run passed the staleness guard and the version
  check, the highest version ever tagged is the published one, and the old content hash
  differs from the new one) the calls of the run are, in this order: the calls up to and
  including \<^verbatim>\<open>generate\<close>; the upload of the output directory by the client whose default
  tag is \<^verbatim>\<open>next\<close>; the sleep of 20 seconds; the installation for validation; the
  comparison of the generated bundle with the installed files, ignoring only
  \<^verbatim>\<open>package.json\<close>; and, only when that comparison succeeds, the tagging of the new
  version as \<^verbatim>\<open>latest\<close> followed by the log. When the comparison fails the run ends
  with its error and no tag call is made.
\<close>

theorem publish_branch_order:
  assumes "stale env" "major (oldVersion env) = 0" "minor (oldVersion env) = 1"
    and "equals (highestVersion env) (oldVersion env)"
    and "contentHash (npmInfo env) \<noteq> newContentHash env"
  shows "runEvents options dry env w =
           beforeDecision env @ generateEvents env
           @ [Publish \<lparr>defaultTag = ''next''\<rparr> RegistryOutputPath (newPackageJson env) dry, Sleep 20]
           @ installEvents env
           @ [AssertDirectoriesEqual RegistryOutputPath ValidateTypesRegistryPath]
           @ (if directoriesEqual (\<lambda>f. f = ''package.json'') (generatedBundle env) (installedFiles env)
              then [Tag packageName (newVersion env) ''latest'',
                    WriteLog ''publish-registry.md''
                      [''=== Publishing types-registry ==='',
                       ''New packages have been added, so publishing a new registry.'']]
              else [])
       \<and> fst (main options dry env w) =
           (if directoriesEqual (\<lambda>f. f = ''package.json'') (generatedBundle env) (installedFiles env)
            then Inr ()
            else Inl (DirectoriesNotEqual RegistryOutputPath ValidateTypesRegistryPath))
       \<and> (if directoriesEqual (\<lambda>f. f = ''package.json'') (generatedBundle env) (installedFiles env)
          then True
          else \<forall>p v t. Tag p v t \<notin> set (runEvents options dry env w))"
  using runEvents_publish[OF assms, of options dry w] main_publish[OF assms, of options dry w]
  by (simp add:)

theorem publish_branch_order_witness:
  "runEvents options5 False (scenario v015 v015 ''abc'' tenDays installedGood) emptyWorld =
     beforeDecision (scenario v015 v015 ''abc'' tenDays installedGood)
     @ generateEvents (scenario v015 v015 ''abc'' tenDays installedGood)
     @ [Publish \<lparr>defaultTag = ''next''\<rparr> RegistryOutputPath
          (newPackageJson (scenario v015 v015 ''abc'' tenDays installedGood)) False,
        Sleep 20]
     @ installEvents (scenario v015 v015 ''abc'' tenDays installedGood)
     @ [AssertDirectoriesEqual RegistryOutputPath ValidateTypesRegistryPath,
        Tag packageName ''0.1.6'' ''latest'',
        WriteLog ''publish-registry.md''
          [''=== Publishing types-registry ==='',
           ''New packages have been added, so publishing a new registry.'']]
   \<and> fst (main options5 False (scenario v015 v015 ''abc'' tenDays installedGood) emptyWorld) = Inr ()
   \<and> fst (main options5 False (scenario v015 v015 ''abc'' tenDays installedStaleReadme) emptyWorld) =
       Inl (DirectoriesNotEqual RegistryOutputPath ValidateTypesRegistryPath)
   \<and> Tag packageName ''0.1.6'' ''latest''
       \<notin> set (runEvents options5 False (scenario v015 v015 ''abc'' tenDays installedStaleReadme) emptyWorld)"
proof -
  have eq: "equals v015 v015" by (simp add: equals_def)
  have good: "runEvents options5 False (scenario v015 v015 ''abc'' tenDays installedGood) emptyWorld =
     beforeDecision (scenario v015 v015 ''abc'' tenDays installedGood)
     @ generateEvents (scenario v015 v015 ''abc'' tenDays installedGood)
     @ [Publish \<lparr>defaultTag = ''next''\<rparr> RegistryOutputPath
          (newPackageJson (scenario v015 v015 ''abc'' tenDays installedGood)) False,
        Sleep 20]
     @ installEvents (scenario v015 v015 ''abc'' tenDays installedGood)
     @ [AssertDirectoriesEqual RegistryOutputPath ValidateTypesRegistryPath,
        Tag packageName ''0.1.6'' ''latest'',
        WriteLog ''publish-registry.md''
          [''=== Publishing types-registry ==='',
           ''New packages have been added, so publishing a new registry.'']]
   \<and> fst (main options5 False (scenario v015 v015 ''abc'' tenDays installedGood) emptyWorld) = Inr ()"
    using publish_branch_order[of "scenario v015 v015 ''abc'' tenDays installedGood" options5 False emptyWorld]
    by (simp add: stale_tenDays eq newContentHash_scenario newVersion_scenario installedGood_valid)
  have bad: "fst (main options5 False (scenario v015 v015 ''abc'' tenDays installedStaleReadme) emptyWorld) =
       Inl (DirectoriesNotEqual RegistryOutputPath ValidateTypesRegistryPath)
   \<and> Tag packageName ''0.1.6'' ''latest''
       \<notin> set (runEvents options5 False (scenario v015 v015 ''abc'' tenDays installedStaleReadme) emptyWorld)"
    using publish_branch_order[of "scenario v015 v015 ''abc'' tenDays installedStaleReadme" options5 False emptyWorld]
    by (simp add: stale_tenDays eq newContentHash_scenario installedStaleReadme_invalid)
  from good bad show ?thesis by simp
qed

subsection \<open>C2: the promote branch\<close>

text \<open>
  Claim C2. When the highest version ever tagged is not the published one, a run never
  calls the publish operation; every tag call it makes tags that highest version as
  \<^verbatim>\<open>latest\<close>, and it is made only in a run that reached the branch and whose
  \<^verbatim>\<open>validateIsSubset\<close> succeeded; the result of such a run is the result of
  \<^verbatim>\<open>validateIsSubset\<close>, so a failed subset validation ends the run without a tag call.
  When the validation succeeds the tag call comes after the installation, the directory
  comparison and the two reads of \<^verbatim>\<open>index.json\<close>.
\<close>

theorem promote_branch_only_tags:
  assumes "\<not> equals (highestVersion env) (oldVersion env)"
  shows "(\<forall>c d j b. Publish c d j b \<notin> set (runEvents options dry env w))
       \<and> (\<forall>p v t. Tag p v t \<in> set (runEvents options dry env w) \<longrightarrow>
             p = packageName \<and> v = versionString (highestVersion env) \<and> t = ''latest''
             \<and> stale env \<and> major (oldVersion env) = 0 \<and> minor (oldVersion env) = 1
             \<and> subsetResult env w = Inr ())
       \<and> (stale env \<and> major (oldVersion env) = 0 \<and> minor (oldVersion env) = 1 \<longrightarrow>
             fst (main options dry env w) = subsetResult env w)
       \<and> (stale env \<and> major (oldVersion env) = 0 \<and> minor (oldVersion env) = 1
             \<and> subsetResult env w = Inr () \<longrightarrow>
             runEvents options dry env w =
               beforeDecision env @ generateEvents env @ [ReadNotNeededPackages]
               @ installEvents env
               @ [AssertDirectoriesEqual RegistryOutputPath ValidateTypesRegistryPath]
               @ readEvents
               @ [Tag packageName (versionString (highestVersion env)) ''latest'',
                  WriteLog ''publish-registry.md''
                    [''=== Publishing types-registry ==='',
                     ''Old version of types-registry was never tagged latest, so updating'']])"
proof (cases "stale env")
  case False
  then show ?thesis by (simp add: runEvents_guard)
next
  case True
  note st = this
  show ?thesis
  proof (cases "major (oldVersion env) = 0 \<and> minor (oldVersion env) = 1")
    case False
    then have "major (oldVersion env) \<noteq> 0 \<or> minor (oldVersion env) \<noteq> 1" by simp
    from runEvents_precondition[OF st this] False show ?thesis by auto
  next
    case True
    then have ma: "major (oldVersion env) = 0" and mi: "minor (oldVersion env) = 1" by simp_all
    obtain k where k: "runEvents options dry env w =
          beforeDecision env @ generateEvents env @ [ReadNotNeededPackages]
          @ installEvents env
          @ [AssertDirectoriesEqual RegistryOutputPath ValidateTypesRegistryPath]
          @ take k readEvents
          @ (if subsetResult env w = Inr ()
             then [Tag packageName (versionString (highestVersion env)) ''latest'',
               WriteLog ''publish-registry.md''
                [''=== Publishing types-registry ==='',
                 ''Old version of types-registry was never tagged latest, so updating'']] else [])"
      and k2: "subsetResult env w = Inr () \<longrightarrow> k = 2"
      using runEvents_promote[OF st ma mi assms, of options dry w] by blast
    have f: "fst (main options dry env w) = subsetResult env w"
      using main_promote[OF st ma mi assms, of options dry w] by blast
    show ?thesis
      using st ma mi f k2 by (auto simp add: k readEvents_take2)
  qed
qed

theorem promote_branch_only_tags_witness:
  "runEvents options5 False (scenario v015 v016 ''abc'' tenDays installedGood) emptyWorld =
     beforeDecision (scenario v015 v016 ''abc'' tenDays installedGood)
     @ generateEvents (scenario v015 v016 ''abc'' tenDays installedGood)
     @ [ReadNotNeededPackages]
     @ installEvents (scenario v015 v016 ''abc'' tenDays installedGood)
     @ [AssertDirectoriesEqual RegistryOutputPath ValidateTypesRegistryPath]
     @ readEvents
     @ [Tag packageName ''0.1.6'' ''latest'',
        WriteLog ''publish-registry.md''
          [''=== Publishing types-registry ==='',
           ''Old version of types-registry was never tagged latest, so updating'']]
   \<and> fst (main options5 False (scenario v015 v016 ''abc'' tenDays installedGood) emptyWorld) = Inr ()"
proof -
  have ne: "\<not> equals v016 v015" by (simp add: equals_def)
  have vs: "versionString v016 = ''0.1.6''"
    by (simp add: versionString_def show_nat.simps)
  let ?env = "scenario v015 v016 ''abc'' tenDays installedGood"
  have n: "\<not> equals (highestSemverVersion (npmInfo ?env)) (version (npmInfo ?env))"
    by (simp add: ne)
  have reach: "isAWeekAfter (dateNow ?env) (lastModified (npmInfo ?env))
       \<and> major (version (npmInfo ?env)) = 0 \<and> minor (version (npmInfo ?env)) = 1"
    by (simp add: stale_tenDays)
  note t = promote_branch_only_tags[OF n, of options5 False emptyWorld]
  have r: "fst (main options5 False ?env emptyWorld) = subsetResult ?env emptyWorld"
    using t[THEN conjunct2, THEN conjunct2, THEN conjunct1] reach by (rule mp)
  have e: "runEvents options5 False ?env emptyWorld =
               beforeDecision ?env @ generateEvents ?env @ [ReadNotNeededPackages]
               @ installEvents ?env
               @ [AssertDirectoriesEqual RegistryOutputPath ValidateTypesRegistryPath]
               @ readEvents
               @ [Tag packageName (versionString (highestSemverVersion (npmInfo ?env))) ''latest'',
                  WriteLog ''publish-registry.md''
                    [''=== Publishing types-registry ==='',
                     ''Old version of types-registry was never tagged latest, so updating'']]"
    using t[THEN conjunct2, THEN conjunct2, THEN conjunct2] reach subsetResult_good[of v015 v016 "''abc''" tenDays]
    by blast
  show ?thesis
    using r e by (simp add: vs subsetResult_good)
qed

subsection \<open>C3: the new version and the manifest\<close>

text \<open>
  Claim C3 says that the version chosen is the published version with the patch component
  incremented by one. The code adds one to a double: at the patch \<open>2^53\<close> the sum is the
  same number, and in the publish branch the manifest that the run publishes has the version
  0.1.9007199254740992, the published version itself and not its successor
  0.1.9007199254740993.
\<close>

theorem new_version_counterexample:
  "patch (version (npmInfo (scenario v01big v01big ''abc'' tenDays installedGood))) = 9007199254740992
   \<and> contentHash (npmInfo (scenario v01big v01big ''abc'' tenDays installedGood))
       \<noteq> newContentHash (scenario v01big v01big ''abc'' tenDays installedGood)
   \<and> Publish \<lparr>defaultTag = ''next''\<rparr> RegistryOutputPath
        (newPackageJson (scenario v01big v01big ''abc'' tenDays installedGood)) False
       \<in> set (runEvents options5 False (scenario v01big v01big ''abc'' tenDays installedGood) emptyWorld)
   \<and> property (newPackageJson (scenario v01big v01big ''abc'' tenDays installedGood)) ''version''
       = Some (JString ''0.1.9007199254740992'')
   \<and> versionString ((version (npmInfo (scenario v01big v01big ''abc'' tenDays installedGood)))
        \<lparr>patch := patch (version (npmInfo (scenario v01big v01big ''abc'' tenDays installedGood))) + 1\<rparr>)
       = ''0.1.9007199254740993''"
proof -
  let ?env = "scenario v01big v01big ''abc'' tenDays installedGood"
  have st: "isAWeekAfter (dateNow ?env) (lastModified (npmInfo ?env))"
    by (simp add: stale_tenDays)
  have ma: "major (version (npmInfo ?env)) = 0" and mi: "minor (version (npmInfo ?env)) = 1"
    by simp_all
  have eq: "equals (highestSemverVersion (npmInfo ?env)) (version (npmInfo ?env))"
    by (simp add: equals_def)
  have h: "contentHash (npmInfo ?env) \<noteq> newContentHash ?env"
    by (simp add: newContentHash_scenario)
  have p: "Publish \<lparr>defaultTag = ''next''\<rparr> RegistryOutputPath (newPackageJson ?env) False
             \<in> set (runEvents options5 False ?env emptyWorld)"
    by (simp add: runEvents_publish[OF st ma mi eq h])
  have v: "property (newPackageJson ?env) ''version'' = Some (JString ''0.1.9007199254740992'')"
    by (simp add: newPackageJson_def generatePackageJson_def property_def newVersion_big)
  have s: "versionString ((version (npmInfo ?env))\<lparr>patch := patch (version (npmInfo ?env)) + 1\<rparr>)
             = ''0.1.9007199254740993''"
    by (simp add: versionString_def show_nat.simps)
  from h p v s show ?thesis by simp
qed

text \<open>
  Claim C3, amended. When the old content hash differs from the new one and the patch
  component of the published version is below \<open>2^53\<close>, every manifest that a run publishes or
  writes as \<^verbatim>\<open>package.json\<close> of the output directory has, as its \<^verbatim>\<open>version\<close>, the
  published version with the patch component incremented by one (major and minor as they
  were) and, as its \<^verbatim>\<open>typesPublisherContentHash\<close>, the new content hash; in the publish
  branch the tag call names that same version, and the manifest is published.
\<close>

theorem new_version_and_manifest:
  assumes "contentHash (npmInfo env) \<noteq> newContentHash env"
    and "patch (oldVersion env) < 9007199254740992"
  shows "(\<forall>c d j b. Publish c d j b \<in> set (runEvents options dry env w) \<longrightarrow>
             property j ''version'' = Some (JString (versionString ((oldVersion env)\<lparr>patch := patch (oldVersion env) + 1\<rparr>)))
           \<and> property j ''typesPublisherContentHash'' = Some (JString (newContentHash env)))
       \<and> (\<forall>f j. WriteJson RegistryOutputPath f j \<in> set (runEvents options dry env w) \<longrightarrow>
             f = ''package.json''
           \<and> property j ''version'' = Some (JString (versionString ((oldVersion env)\<lparr>patch := patch (oldVersion env) + 1\<rparr>)))
           \<and> property j ''typesPublisherContentHash'' = Some (JString (newContentHash env)))
       \<and> (equals (highestVersion env) (oldVersion env) \<longrightarrow>
            (\<forall>p v t. Tag p v t \<in> set (runEvents options dry env w) \<longrightarrow>
               v = versionString ((oldVersion env)\<lparr>patch := patch (oldVersion env) + 1\<rparr>) \<and> t = ''latest''))
       \<and> (stale env \<and> major (oldVersion env) = 0 \<and> minor (oldVersion env) = 1 \<and> equals (highestVersion env) (oldVersion env) \<longrightarrow>
            Publish \<lparr>defaultTag = ''next''\<rparr> RegistryOutputPath (newPackageJson env) dry
              \<in> set (runEvents options dry env w))"
proof (cases "stale env")
  case False
  then show ?thesis by (simp add: runEvents_guard)
next
  case True
  note st = this
  show ?thesis
  proof (cases "major (oldVersion env) = 0 \<and> minor (oldVersion env) = 1")
    case False
    then have "major (oldVersion env) \<noteq> 0 \<or> minor (oldVersion env) \<noteq> 1" by simp
    from runEvents_precondition[OF st this] False show ?thesis by auto
  next
    case True
    then have ma: "major (oldVersion env) = 0" and mi: "minor (oldVersion env) = 1" by simp_all
    have nv: "newVersion env = versionString ((oldVersion env)\<lparr>patch := patch (oldVersion env) + 1\<rparr>)"
      unfolding newVersion_def by (rule newVersion_increment[OF ma mi assms(2)])
    have pv: "property (newPackageJson env) ''version'' = Some (JString (newVersion env))"
      by (simp add: newPackageJson_def generatePackageJson_def property_def)
    have ph: "property (newPackageJson env) ''typesPublisherContentHash'' = Some (JString (newContentHash env))"
      by (simp add: newPackageJson_def generatePackageJson_def property_def)
    show ?thesis
    proof (cases "equals (highestVersion env) (oldVersion env)")
      case True
      from runEvents_publish[OF st ma mi True assms(1), of options dry w]
      show ?thesis using st ma mi True pv ph nv
        by (auto simp add: WriteJson_output)
    next
      case False
      obtain k where k: "runEvents options dry env w =
          beforeDecision env @ generateEvents env @ [ReadNotNeededPackages]
          @ installEvents env
          @ [AssertDirectoriesEqual RegistryOutputPath ValidateTypesRegistryPath]
          @ take k readEvents
          @ (if subsetResult env w = Inr ()
             then [Tag packageName (versionString (highestVersion env)) ''latest'',
               WriteLog ''publish-registry.md''
                [''=== Publishing types-registry ==='',
                 ''Old version of types-registry was never tagged latest, so updating'']] else [])"
        using runEvents_promote[OF st ma mi False, of options dry w] by blast
      show ?thesis using False pv ph nv
        by (auto simp add: k WriteJson_output)
    qed
  qed
qed

theorem new_version_and_manifest_witness:
  "Publish \<lparr>defaultTag = ''next''\<rparr> RegistryOutputPath
      (newPackageJson (scenario v015 v015 ''abc'' tenDays installedGood)) False
     \<in> set (runEvents options5 False (scenario v015 v015 ''abc'' tenDays installedGood) emptyWorld)
   \<and> property (newPackageJson (scenario v015 v015 ''abc'' tenDays installedGood)) ''version''
       = Some (JString ''0.1.6'')
   \<and> property (newPackageJson (scenario v015 v015 ''abc'' tenDays installedGood)) ''typesPublisherContentHash''
       = Some (JString ''xyz'')"
proof -
  let ?env = "scenario v015 v015 ''abc'' tenDays installedGood"
  have eq: "equals v015 v015" by (simp add: equals_def)
  have vs: "versionString (v015\<lparr>patch := 6\<rparr>) = ''0.1.6''"
    by (simp add: versionString_def show_nat.simps)
  note t = new_version_and_manifest[of ?env options5 False emptyWorld]
  have h: "contentHash (npmInfo ?env) \<noteq> newContentHash ?env"
    by (simp add: newContentHash_scenario)
  have b: "patch (version (npmInfo ?env)) < 9007199254740992"
    by simp
  have p: "Publish \<lparr>defaultTag = ''next''\<rparr> RegistryOutputPath (newPackageJson ?env) False
             \<in> set (runEvents options5 False ?env emptyWorld)"
    using t[OF h b] by (simp add: stale_tenDays eq)
  have "\<forall>c d j b. Publish c d j b \<in> set (runEvents options5 False ?env emptyWorld) \<longrightarrow>
             property j ''version'' = Some (JString (versionString ((version (npmInfo ?env))\<lparr>patch := patch (version (npmInfo ?env)) + 1\<rparr>)))
           \<and> property j ''typesPublisherContentHash'' = Some (JString (newContentHash ?env))"
    using t[OF h b] by (rule conjunct1)
  with p have "property (newPackageJson ?env) ''version'' = Some (JString (versionString ((version (npmInfo ?env))\<lparr>patch := patch (version (npmInfo ?env)) + 1\<rparr>)))
           \<and> property (newPackageJson ?env) ''typesPublisherContentHash'' = Some (JString (newContentHash ?env))"
    by blast
  then have "property (newPackageJson ?env) ''version'' = Some (JString ''0.1.6'')
      \<and> property (newPackageJson ?env) ''typesPublisherContentHash'' = Some (JString ''xyz'')"
    by (simp add: vs newContentHash_scenario)
  with p show ?thesis by simp
qed

subsection \<open>C4: an incompatible published version\<close>

text \<open>
  Claim C4 says that a published version whose major component is not 0 or whose minor
  component is not 1 always halts the run with a fatal error. The staleness guard comes
  first in \<^verbatim>\<open>main\<close>: with the registry record three days old and the published version
  1.0.0 the run returns normally after its first call.
\<close>

theorem incompatible_version_counterexample:
  "major (version (npmInfo (scenario v100 v100 ''abc'' threeDays []))) = 1
   \<and> fst (main options5 False (scenario v100 v100 ''abc'' threeDays []) emptyWorld) = Inr ()
   \<and> runEvents options5 False (scenario v100 v100 ''abc'' threeDays []) emptyWorld =
       [FetchAndProcessNpmInfo packageName]"
proof -
  have "\<not> isAWeekAfter threeDays 0"
    by (simp add: threeDays_def isAWeekAfter_def millisecondsPerDay_def)
  then show ?thesis
    by (simp add: main_guard runEvents_guard)
qed

text \<open>
  Claim C4, amended. On a run that passes the staleness guard, a published version whose
  major component is not 0 or whose minor component is not 1 halts the run with the
  assertion error of the failed check; the run has made only the calls that precede the
  check (no publish, no tag, no installation, no directory comparison) and has left the
  directories as they were.
\<close>

theorem incompatible_version_halts:
  assumes "stale env"
    and "major (oldVersion env) \<noteq> 0 \<or> minor (oldVersion env) \<noteq> 1"
  shows "fst (main options dry env w) =
           Inl (if major (oldVersion env) \<noteq> 0 then AssertionError (major (oldVersion env)) 0
                else AssertionError (minor (oldVersion env)) 1)
       \<and> runEvents options dry env w = beforeDecision env
       \<and> fs (snd (main options dry env w)) = fs w
       \<and> (\<forall>c d j b. Publish c d j b \<notin> set (runEvents options dry env w))
       \<and> (\<forall>p v t. Tag p v t \<notin> set (runEvents options dry env w))
       \<and> (\<forall>s p. NpmInstall s p \<notin> set (runEvents options dry env w))
       \<and> (\<forall>p q. AssertDirectoriesEqual p q \<notin> set (runEvents options dry env w))"
  using runEvents_precondition[OF assms, of options dry w] main_precondition[OF assms, of options dry w]
  by simp

theorem incompatible_version_halts_witness:
  "fst (main options5 False (scenario v100 v100 ''abc'' tenDays []) emptyWorld) = Inl (AssertionError 1 0)
   \<and> runEvents options5 False (scenario v100 v100 ''abc'' tenDays []) emptyWorld =
       [FetchAndProcessNpmInfo packageName, NpmClientCreate ''next'', ReadTypings,
        FetchNpmInfo ''@types%2fjquery'']"
  using incompatible_version_halts[of "scenario v100 v100 ''abc'' tenDays []" options5 False emptyWorld]
  by (simp add: stale_tenDays beforeDecision_def fetchEvents_def exampleTypings_def)

subsection \<open>C5: the keys of subset validation\<close>

text \<open>
  Claim C5 says that subset validation aborts with the error naming the key exactly when
  the installed index has a key that is neither in the generated index nor the name of a
  not-needed package. The directory comparison comes first in \<^verbatim>\<open>validateIsSubset\<close>: with
  such a key (\<^verbatim>\<open>gone\<close>) in the installed index and an installed \<^verbatim>\<open>README.md\<close> that differs
  from the generated one, the validation that \<^verbatim>\<open>main\<close> runs aborts with the error of the
  comparison, which names no key.
\<close>

theorem subset_validation_counterexample:
  "subsetResult (scenario v015 v016 ''abc'' tenDays installedExtraKeyStaleReadme) emptyWorld
     = Inl (DirectoriesNotEqual RegistryOutputPath ValidateTypesRegistryPath)
   \<and> ''gone'' \<in> set (installedKeys (scenario v015 v016 ''abc'' tenDays installedExtraKeyStaleReadme))
   \<and> ''gone'' \<notin> set (generatedKeys (scenario v015 v016 ''abc'' tenDays installedExtraKeyStaleReadme))
   \<and> notNeededData (scenario v015 v016 ''abc'' tenDays installedExtraKeyStaleReadme) = []"
proof -
  let ?env = "scenario v015 v016 ''abc'' tenDays installedExtraKeyStaleReadme"
  have "\<not> directoriesEqual (\<lambda>f. f = ''package.json'' \<or> f = ''index.json'')
             (generatedBundle ?env) (installedFiles ?env)"
    unfolding generatedBundle_def newRegistry_scenario
    by (simp add: directoriesEqual_def installedExtraKeyStaleReadme_def readme_def)
  then have "subsetResult ?env emptyWorld
     = Inl (DirectoriesNotEqual RegistryOutputPath ValidateTypesRegistryPath)"
    by (rule subsetResult_mismatch)
  moreover have "''gone'' \<in> set (installedKeys ?env)"
    by (simp add: installedKeys_def installedExtraKeyStaleReadme_def entriesProperty_def
        forInKeys_def installedEntries_def)
  ultimately show ?thesis
    by (simp add: generatedKeys_scenario)
qed

text \<open>
  Claim C5, amended. In the subset validation that \<^verbatim>\<open>main\<close> runs, when the installed files
  equal the generated ones apart from \<^verbatim>\<open>package.json\<close> and \<^verbatim>\<open>index.json\<close>, and for installed
  keys other than the names every object inherits: if some key of the installed index is
  neither a key of the generated index nor the name of a not-needed package, the validation
  aborts with the error that names such a key; otherwise it aborts with no error that names
  a key, and it succeeds whenever the installed \<^verbatim>\<open>index.json\<close> can be read and is not
  \<^verbatim>\<open>null\<close>. So a key that a not-needed package explains causes no failure, and neither does
  a key that only the generated index has.

  The statement leaves out the inherited names because \<^verbatim>\<open>key in expected.entries\<close> is true
  of them whatever the generated index holds: lemma \<open>inherited_key_accepted\<close> shows the
  installed key \<^verbatim>\<open>constructor\<close>, in no index generated and no package not needed, passing
  the validation.
\<close>

theorem subset_validation_keys:
  assumes "directoriesEqual (\<lambda>f. f = ''package.json'' \<or> f = ''index.json'')
             (generatedBundle env) (installedFiles env)"
    and "\<forall>key \<in> set (installedKeys env). key \<notin> set objectPrototypeNames"
  shows "if \<exists>key \<in> set (installedKeys env).
               key \<notin> set (generatedKeys env)
             \<and> key \<notin> set (map NotNeededPackage.name (notNeededData env))
         then \<exists>key. key \<in> set (installedKeys env) \<and> key \<notin> set (generatedKeys env)
                \<and> key \<notin> set (map NotNeededPackage.name (notNeededData env))
                \<and> subsetResult env w =
                    Inl (Error (''Actual types-registry has unexpected key '' @ key))
         else (\<forall>m. subsetResult env w \<noteq> Inl (Error m))
            \<and> ((\<exists>a. map_of (installedFiles env) ''index.json'' = Some (JsonText a) \<and> a \<noteq> JNull)
                 \<longrightarrow> subsetResult env w = Inr ())"
proof -
  let ?readable = "\<exists>a. map_of (installedFiles env) ''index.json'' = Some (JsonText a) \<and> a \<noteq> JNull"
  consider (unreadable) "\<forall>a. map_of (installedFiles env) ''index.json'' \<noteq> Some (JsonText a)"
    | (isNull) "map_of (installedFiles env) ''index.json'' = Some (JsonText JNull)"
    | (isValue) a where "map_of (installedFiles env) ''index.json'' = Some (JsonText a)" "a \<noteq> JNull"
    by blast
  then show ?thesis
  proof cases
    case unreadable
    have e: "installedKeys env = []"
      using subsetResult_unreadable[OF assms(1) unreadable, of w] by blast
    have n: "\<forall>m. subsetResult env w \<noteq> Inl (Error m)"
      using subsetResult_unreadable[OF assms(1) unreadable, of w] by blast
    have "\<not> ?readable" using unreadable by simp
    then show ?thesis using e n by (simp del: not_ex)
  next
    case isNull
    have e: "installedKeys env = []"
      using subsetResult_null[OF assms(1) isNull, of w] by blast
    have n: "\<forall>m. subsetResult env w \<noteq> Inl (Error m)"
      using subsetResult_null[OF assms(1) isNull, of w] by simp
    have "\<not> ?readable" using isNull by simp
    then show ?thesis using e n by (simp del: not_ex)
  next
    case isValue
    let ?Q = "\<lambda>key. key \<notin> set (generatedKeys env)
                  \<and> key \<notin> set (map NotNeededPackage.name (notNeededData env))"
    let ?P = "\<lambda>key. key \<notin> set (generatedKeys env) \<and> key \<notin> set objectPrototypeNames
                  \<and> key \<notin> set (map NotNeededPackage.name (notNeededData env))"
    have r: "subsetResult env w =
       (case find ?P (installedKeys env) of
          None \<Rightarrow> Inr ()
        | Some key \<Rightarrow> Inl (Error (''Actual types-registry has unexpected key '' @ key)))"
      by (rule subsetResult_keys[OF assms(1) isValue])
    show ?thesis
    proof (cases "find ?P (installedKeys env)")
      case None
      have n: "\<not> (\<exists>key \<in> set (installedKeys env). ?Q key)"
        using None assms(2) find_None_iff[of ?P "installedKeys env"] by blast
      have "subsetResult env w = Inr ()"
        by (simp only: r None option.simps)
      then have "(\<forall>m. subsetResult env w \<noteq> Inl (Error m))
              \<and> (?readable \<longrightarrow> subsetResult env w = Inr ())"
        by simp
      then show ?thesis by (subst if_not_P[OF n])
    next
      case (Some key)
      have k: "key \<in> set (installedKeys env) \<and> ?P key"
        using Some by (rule find_SomeD)
      then have y: "\<exists>key \<in> set (installedKeys env). ?Q key" by blast
      have "subsetResult env w =
              Inl (Error (''Actual types-registry has unexpected key '' @ key))"
        by (simp only: r Some option.simps)
      with k have "\<exists>key. key \<in> set (installedKeys env) \<and> key \<notin> set (generatedKeys env)
                  \<and> key \<notin> set (map NotNeededPackage.name (notNeededData env))
                  \<and> subsetResult env w =
                      Inl (Error (''Actual types-registry has unexpected key '' @ key))"
        by blast
      then show ?thesis by (subst if_P[OF y])
    qed
  qed
qed

theorem subset_validation_keys_witness:
  "subsetResult (scenario v015 v016 ''abc'' tenDays installedExtraKey) emptyWorld
     = Inl (Error ''Actual types-registry has unexpected key gone'')
   \<and> subsetResult ((scenario v015 v016 ''abc'' tenDays installedExtraKey)\<lparr>notNeededData := retiredGone\<rparr>)
       emptyWorld = Inr ()
   \<and> subsetResult (scenario v015 v016 ''abc'' tenDays installedGood) emptyWorld = Inr ()"
proof -
  let ?bad = "scenario v015 v016 ''abc'' tenDays installedExtraKey"
  let ?retired = "(scenario v015 v016 ''abc'' tenDays installedExtraKey)\<lparr>notNeededData := retiredGone\<rparr>"
  let ?good = "scenario v015 v016 ''abc'' tenDays installedGood"
  have tb: "directoriesEqual (\<lambda>f. f = ''package.json'' \<or> f = ''index.json'')
             (generatedBundle ?bad) (installedFiles ?bad)"
    unfolding generatedBundle_def newRegistry_scenario
    by (simp add: directoriesEqual_def installedExtraKey_def)
  have pb: "\<forall>key \<in> set (installedKeys ?bad). key \<notin> set objectPrototypeNames"
    by (simp add: installedKeys_extra objectPrototypeNames_def)
  have a: "subsetResult ?bad emptyWorld = Inl (Error ''Actual types-registry has unexpected key gone'')"
    using subset_validation_keys[OF tb pb, of emptyWorld]
    by (auto simp add: installedKeys_extra generatedKeys_scenario)
  have tr: "directoriesEqual (\<lambda>f. f = ''package.json'' \<or> f = ''index.json'')
             (generatedBundle ?retired) (installedFiles ?retired)"
    unfolding generatedBundle_def newRegistry_retired
    by (simp add: directoriesEqual_def installedExtraKey_def)
  have pr: "\<forall>key \<in> set (installedKeys ?retired). key \<notin> set objectPrototypeNames"
    by (simp add: installedKeys_extra objectPrototypeNames_def)
  have fr: "\<exists>a. map_of (installedFiles ?retired) ''index.json'' = Some (JsonText a) \<and> a \<noteq> JNull"
    by (simp add: installedExtraKey_def)
  have r: "subsetResult ?retired emptyWorld = Inr ()"
    using subset_validation_keys[OF tr pr, of emptyWorld] fr
    by (simp add: installedKeys_extra generatedKeys_retired retiredGone_def)
  have tg: "directoriesEqual (\<lambda>f. f = ''package.json'' \<or> f = ''index.json'')
             (generatedBundle ?good) (installedFiles ?good)"
    unfolding generatedBundle_def newRegistry_scenario
    by (simp add: directoriesEqual_def installedGood_def)
  have pg: "\<forall>key \<in> set (installedKeys ?good). key \<notin> set objectPrototypeNames"
    by (simp add: installedKeys_good objectPrototypeNames_def)
  have fg: "\<exists>a. map_of (installedFiles ?good) ''index.json'' = Some (JsonText a) \<and> a \<noteq> JNull"
    by (simp add: installedGood_def exampleIndex_def)
  have b: "subsetResult ?good emptyWorld = Inr ()"
    using subset_validation_keys[OF tg pg, of emptyWorld] fg
    by (simp add: installedKeys_good generatedKeys_scenario)
  from a r b show ?thesis by simp
qed

subsection \<open>C6: the staleness guard\<close>

text \<open>
  Claim C6. When the registry record was last modified less than one week before the run,
  \<^verbatim>\<open>main\<close> returns normally after its first call, the fetch of the record itself: the
  trace gains that one call, the log says so, and the directories are untouched (no fetch
  per package, no generation, no publish, no tag, no validation).
\<close>

theorem fresh_registry_no_op:
  assumes "real_of_int (dateNow env - lastModified (npmInfo env)) < 7 * millisecondsPerDay"
  shows "main options dry env w =
     (Inr (), w\<lparr>trace := trace w @ [FetchAndProcessNpmInfo packageName],
                logs := [''=== Publishing types-registry ==='',
                         ''Was modified less than a week ago, so do nothing.'']\<rparr>)"
proof -
  have "\<not> isAWeekAfter (dateNow env) (lastModified (npmInfo env))"
    using assms by (simp add: isAWeekAfter_def millisecondsPerDay_def Let_def)
  then show ?thesis by (rule main_guard)
qed

theorem fresh_registry_no_op_witness:
  "main options5 False (scenario v015 v015 ''abc'' threeDays []) emptyWorld =
     (Inr (), emptyWorld\<lparr>trace := trace emptyWorld @ [FetchAndProcessNpmInfo packageName],
                logs := [''=== Publishing types-registry ==='',
                         ''Was modified less than a week ago, so do nothing.'']\<rparr>)"
  using fresh_registry_no_op[of "scenario v015 v015 ''abc'' threeDays []" options5 False emptyWorld]
  by (simp add: threeDays_def millisecondsPerDay_def)

subsection \<open>C7: filterTags keeps latest and drops its aliases\<close>

text \<open>
  Claim C7. For tags with an entry \<^verbatim>\<open>latest\<close>, the result of \<^verbatim>\<open>filterTags\<close> has
  \<^verbatim>\<open>latest\<close> with the same version; every other entry of the result is an entry of the
  input whose version differs from that of \<^verbatim>\<open>latest\<close>; and every entry of the input whose
  version differs from it is kept, an entry named \<^verbatim>\<open>__proto__\<close> apart.
\<close>

theorem filterTags_keeps_latest:
  assumes "map_of tags ''latest'' = Some latestVersion"
  shows "map_of (filterTags tags) ''latest'' = Some latestVersion
     \<and> (\<forall>tag v. tag \<noteq> ''latest'' \<and> map_of (filterTags tags) tag = Some v
            \<longrightarrow> v \<noteq> latestVersion \<and> map_of tags tag = Some v)
     \<and> (\<forall>tag v. tag \<noteq> ''__proto__'' \<and> map_of tags tag = Some v \<and> v \<noteq> latestVersion
            \<longrightarrow> map_of (filterTags tags) tag = Some v)"
  using assms by (auto simp add: map_of_filterTags split: if_splits)

theorem filterTags_keeps_latest_witness:
  "map_of (filterTags [(''latest'', ''3.3.0''), (''ts2.0'', ''3.3.0''), (''ts2.1'', ''2.0.0'')]) ''latest''
     = Some ''3.3.0''
   \<and> map_of (filterTags [(''latest'', ''3.3.0''), (''ts2.0'', ''3.3.0''), (''ts2.1'', ''2.0.0'')]) ''ts2.1''
     = Some ''2.0.0''
   \<and> map_of (filterTags [(''latest'', ''3.3.0''), (''ts2.0'', ''3.3.0''), (''ts2.1'', ''2.0.0'')]) ''ts2.0''
     \<noteq> Some ''3.3.0''"
proof -
  let ?tags = "[(''latest'', ''3.3.0''), (''ts2.0'', ''3.3.0''), (''ts2.1'', ''2.0.0'')]"
  have l: "map_of ?tags ''latest'' = Some ''3.3.0''" by simp
  note t = filterTags_keeps_latest[OF l]
  have a: "map_of (filterTags ?tags) ''latest'' = Some ''3.3.0''"
    using t by (rule conjunct1)
  have k: "\<forall>tag v. tag \<noteq> ''__proto__'' \<and> map_of ?tags tag = Some v \<and> v \<noteq> ''3.3.0''
            \<longrightarrow> map_of (filterTags ?tags) tag = Some v"
    using t by (rule conjunct2[THEN conjunct2])
  have d: "\<forall>tag v. tag \<noteq> ''latest'' \<and> map_of (filterTags ?tags) tag = Some v
            \<longrightarrow> v \<noteq> ''3.3.0'' \<and> map_of ?tags tag = Some v"
    using t by (rule conjunct2[THEN conjunct1])
  have b: "map_of (filterTags ?tags) ''ts2.1'' = Some ''2.0.0''"
    using k[rule_format, of "''ts2.1''" "''2.0.0''"] by simp
  have c: "map_of (filterTags ?tags) ''ts2.0'' \<noteq> Some ''3.3.0''"
    using d[rule_format, of "''ts2.0''" "''3.3.0''"] by auto
  from a b c show ?thesis by simp
qed

subsection \<open>C8: filterTags without latest\<close>

text \<open>
  Claim C8 says that \<^verbatim>\<open>filterTags\<close> returns tags without an entry \<^verbatim>\<open>latest\<close> unchanged.
  The loop copies every entry with \<^verbatim>\<open>out[tag] = tags[tag]\<close>, and for the tag
  \<^verbatim>\<open>__proto__\<close> that assignment stores nothing: of the tags \<^verbatim>\<open>__proto__\<close> and \<^verbatim>\<open>beta\<close>,
  neither of them \<^verbatim>\<open>latest\<close>, only \<^verbatim>\<open>beta\<close> is returned. (For tags without \<^verbatim>\<open>latest\<close> and
  without \<^verbatim>\<open>__proto__\<close> the result is the input: lemma \<open>filterTags_unchanged\<close>.)
\<close>

theorem filterTags_loses_proto:
  "map_of [(''__proto__'', ''1.0.0''), (''beta'', ''2.0.0'')] ''latest'' = None
   \<and> filterTags [(''__proto__'', ''1.0.0''), (''beta'', ''2.0.0'')] = [(''beta'', ''2.0.0'')]"
  by (simp add: filterTags_def setProperty_def)

subsection \<open>C9: the branch that only validates\<close>

text \<open>
  Claim C9 says that a run with equal hashes and with the highest version ever tagged equal
  to the published one performs the full validation. The version check comes first in
  \<^verbatim>\<open>main\<close>: with the published version 1.0.0, also the highest one, and equal hashes, the
  run ends at the check with an assertion error and has neither installed nor compared
  anything.
\<close>

theorem noop_branch_counterexample:
  "equals (highestSemverVersion (npmInfo (scenario v100 v100 ''xyz'' tenDays installedGood)))
          (version (npmInfo (scenario v100 v100 ''xyz'' tenDays installedGood)))
   \<and> contentHash (npmInfo (scenario v100 v100 ''xyz'' tenDays installedGood)) =
       newContentHash (scenario v100 v100 ''xyz'' tenDays installedGood)
   \<and> fst (main options5 False (scenario v100 v100 ''xyz'' tenDays installedGood) emptyWorld) =
       Inl (AssertionError 1 0)
   \<and> runEvents options5 False (scenario v100 v100 ''xyz'' tenDays installedGood) emptyWorld =
       [FetchAndProcessNpmInfo packageName, NpmClientCreate ''next'', ReadTypings,
        FetchNpmInfo ''@types%2fjquery'']"
proof -
  have s: "isAWeekAfter (dateNow (scenario v100 v100 ''xyz'' tenDays installedGood))
             (lastModified (npmInfo (scenario v100 v100 ''xyz'' tenDays installedGood)))"
    by (simp add: stale_tenDays)
  have m: "major (version (npmInfo (scenario v100 v100 ''xyz'' tenDays installedGood))) \<noteq> 0
         \<or> minor (version (npmInfo (scenario v100 v100 ''xyz'' tenDays installedGood))) \<noteq> 1"
    by simp
  show ?thesis
    using main_precondition[OF s m, of options5 False emptyWorld] runEvents_precondition[OF s m, of options5 False emptyWorld]
    by (simp add: equals_def newContentHash_scenario beforeDecision_def fetchEvents_def exampleTypings_def)
qed

text \<open>
  Claim C9, amended. On a run that passes the staleness guard and the version check
  (major 0, minor 1), with equal hashes and with the highest version ever tagged equal to
  the published one: after \<^verbatim>\<open>generate\<close> the run installs \<^verbatim>\<open>types-registry@next\<close> and
  compares the generated bundle with the installed files, ignoring only
  \<^verbatim>\<open>package.json\<close>; its result is the result of that comparison; it makes no publish
  call and no tag call.
\<close>

theorem noop_branch_validates:
  assumes "stale env" "major (oldVersion env) = 0" "minor (oldVersion env) = 1"
    and "equals (highestVersion env) (oldVersion env)"
    and "contentHash (npmInfo env) = newContentHash env"
  shows "runEvents options dry env w =
           beforeDecision env @ generateEvents env @ installEvents env
           @ [AssertDirectoriesEqual RegistryOutputPath ValidateTypesRegistryPath]
           @ (if directoriesEqual (\<lambda>f. f = ''package.json'') (generatedBundle env) (installedFiles env)
              then [WriteLog ''publish-registry.md''
                      [''=== Publishing types-registry ==='',
                       ''No new packages published, so no need to publish new registry.'']]
              else [])
       \<and> fst (main options dry env w) =
           (if directoriesEqual (\<lambda>f. f = ''package.json'') (generatedBundle env) (installedFiles env)
            then Inr ()
            else Inl (DirectoriesNotEqual RegistryOutputPath ValidateTypesRegistryPath))
       \<and> (\<forall>c d j b. Publish c d j b \<notin> set (runEvents options dry env w))
       \<and> (\<forall>p v t. Tag p v t \<notin> set (runEvents options dry env w))"
  using runEvents_noop[OF assms, of options dry w] main_noop[OF assms, of options dry w]
  by (simp add:)

theorem noop_branch_validates_witness:
  "runEvents options5 False (scenario v015 v015 ''xyz'' tenDays installedGood) emptyWorld =
     beforeDecision (scenario v015 v015 ''xyz'' tenDays installedGood)
     @ generateEvents (scenario v015 v015 ''xyz'' tenDays installedGood)
     @ installEvents (scenario v015 v015 ''xyz'' tenDays installedGood)
     @ [AssertDirectoriesEqual RegistryOutputPath ValidateTypesRegistryPath,
        WriteLog ''publish-registry.md''
          [''=== Publishing types-registry ==='',
           ''No new packages published, so no need to publish new registry.'']]
   \<and> fst (main options5 False (scenario v015 v015 ''xyz'' tenDays installedGood) emptyWorld) = Inr ()"
  using noop_branch_validates[of "scenario v015 v015 ''xyz'' tenDays installedGood" options5 False emptyWorld]
  by (simp add: stale_tenDays equals_def newContentHash_scenario installedGood_valid)

subsection \<open>C10: the bundle is regenerated before the branch\<close>

text \<open>
  Claim C10 says that the regenerated \<^verbatim>\<open>package.json\<close> has the version of patch plus one.
  The code adds one to a double: with the published version 0.1.9007199254740992 (patch
  \<open>2^53\<close>), in the branch that only validates, the \<^verbatim>\<open>package.json\<close> left in the output
  directory has that same version, not 0.1.9007199254740993.
\<close>

theorem bundle_regenerated_counterexample:
  "isAWeekAfter (dateNow (scenario v01big v01big ''xyz'' tenDays installedGood))
      (lastModified (npmInfo (scenario v01big v01big ''xyz'' tenDays installedGood)))
   \<and> major (version (npmInfo (scenario v01big v01big ''xyz'' tenDays installedGood))) = 0
   \<and> minor (version (npmInfo (scenario v01big v01big ''xyz'' tenDays installedGood))) = 1
   \<and> map_of (fs (snd (main options5 False (scenario v01big v01big ''xyz'' tenDays installedGood) emptyWorld))
        RegistryOutputPath) ''package.json''
       = Some (JSON_stringify (generatePackageJson ''0.1.9007199254740992'' ''xyz''))
   \<and> versionString ((version (npmInfo (scenario v01big v01big ''xyz'' tenDays installedGood)))
        \<lparr>patch := patch (version (npmInfo (scenario v01big v01big ''xyz'' tenDays installedGood))) + 1\<rparr>)
       = ''0.1.9007199254740993''"
proof -
  let ?env = "scenario v01big v01big ''xyz'' tenDays installedGood"
  have st: "isAWeekAfter (dateNow ?env) (lastModified (npmInfo ?env))"
    by (simp add: stale_tenDays)
  have ma: "major (version (npmInfo ?env)) = 0" and mi: "minor (version (npmInfo ?env)) = 1"
    by simp_all
  have eq: "equals (highestSemverVersion (npmInfo ?env)) (version (npmInfo ?env))"
    by (simp add: equals_def)
  have h: "contentHash (npmInfo ?env) = newContentHash ?env"
    by (simp add: newContentHash_scenario)
  have f: "map_of (fs (snd (main options5 False ?env emptyWorld)) RegistryOutputPath) ''package.json''
       = Some (JSON_stringify (generatePackageJson ''0.1.9007199254740992'' ''xyz''))"
    by (simp add: main_noop[OF st ma mi eq h] generatedBundle_def newPackageJson_def
        newVersion_big newContentHash_scenario)
  have s: "versionString ((version (npmInfo ?env))\<lparr>patch := patch (version (npmInfo ?env)) + 1\<rparr>)
             = ''0.1.9007199254740993''"
    by (simp add: versionString_def show_nat.simps)
  from st ma mi f s show ?thesis by simp
qed

text \<open>
  Claim C10, amended. On every run that passes the staleness guard and the version check
  and whose published patch component is below \<open>2^53\<close>, whatever branch it then takes: the
  calls of the run start with the calls before the check followed by the four calls of
  \<^verbatim>\<open>generate\<close> (empty the output directory, write \<^verbatim>\<open>package.json\<close>, write
  \<^verbatim>\<open>index.json\<close>, write \<^verbatim>\<open>README.md\<close>); the manifest written has, as its \<^verbatim>\<open>version\<close>, the
  published version with the patch incremented by one and, as its
  \<^verbatim>\<open>typesPublisherContentHash\<close>, the new content hash; no publish, tag, installation,
  comparison or read of the not-needed packages is among these calls, so the calls of the
  branch come after; and at the end of the run the output directory holds exactly the three
  files written.
\<close>

theorem bundle_regenerated_before_decision:
  assumes "stale env" "major (oldVersion env) = 0" "minor (oldVersion env) = 1"
    and "patch (oldVersion env) < 9007199254740992"
  shows "\<exists>manifest rest.
           runEvents options dry env w =
             beforeDecision env
             @ [EmptyDir RegistryOutputPath,
                WriteJson RegistryOutputPath ''package.json'' manifest,
                WriteFile RegistryOutputPath ''index.json'' (newRegistry env),
                WriteFile RegistryOutputPath ''README.md'' readme]
             @ rest
         \<and> property manifest ''version'' =
             Some (JString (versionString ((oldVersion env)\<lparr>patch := patch (oldVersion env) + 1\<rparr>)))
         \<and> property manifest ''typesPublisherContentHash'' = Some (JString (newContentHash env))
         \<and> fs (snd (main options dry env w)) RegistryOutputPath =
             [(''package.json'', JSON_stringify manifest),
              (''index.json'', newRegistry env),
              (''README.md'', readme)]
         \<and> (\<forall>c d j b. Publish c d j b \<notin> set (beforeDecision env))
         \<and> (\<forall>p v t. Tag p v t \<notin> set (beforeDecision env))
         \<and> (\<forall>s p. NpmInstall s p \<notin> set (beforeDecision env))
         \<and> (\<forall>p q. AssertDirectoriesEqual p q \<notin> set (beforeDecision env))
         \<and> ReadNotNeededPackages \<notin> set (beforeDecision env)"
proof -
  have nv: "newVersion env = versionString ((oldVersion env)\<lparr>patch := patch (oldVersion env) + 1\<rparr>)"
    unfolding newVersion_def by (rule newVersion_increment[OF assms(2,3,4)])
  have pv: "property (newPackageJson env) ''version'' =
             Some (JString (versionString ((oldVersion env)\<lparr>patch := patch (oldVersion env) + 1\<rparr>)))"
    by (simp add: newPackageJson_def generatePackageJson_def property_def nv)
  have ph: "property (newPackageJson env) ''typesPublisherContentHash'' = Some (JString (newContentHash env))"
    by (simp add: newPackageJson_def generatePackageJson_def property_def)
  have run: "(\<exists>rest. runEvents options dry env w = beforeDecision env @ generateEvents env @ rest)
       \<and> fs (snd (main options dry env w)) RegistryOutputPath = generatedBundle env"
  proof (cases "equals (highestVersion env) (oldVersion env)")
    case False
    from runEvents_promote[OF assms(1,2,3) False, of options dry w]
      main_promote[OF assms(1,2,3) False, of options dry w]
    show ?thesis by auto
  next
    case True
    show ?thesis
    proof (cases "contentHash (npmInfo env) = newContentHash env")
      case True
      from runEvents_noop[OF assms(1,2,3) \<open>equals (highestVersion env) (oldVersion env)\<close> True, of options dry w]
        main_noop[OF assms(1,2,3) \<open>equals (highestVersion env) (oldVersion env)\<close> True, of options dry w]
      show ?thesis by simp
    next
      case False
      from runEvents_publish[OF assms(1,2,3) \<open>equals (highestVersion env) (oldVersion env)\<close> False, of options dry w]
        main_publish[OF assms(1,2,3) \<open>equals (highestVersion env) (oldVersion env)\<close> False, of options dry w]
      show ?thesis by simp
    qed
  qed
  then obtain rest where
    r: "runEvents options dry env w = beforeDecision env @ generateEvents env @ rest"
    and f: "fs (snd (main options dry env w)) RegistryOutputPath = generatedBundle env"
    by blast
  show ?thesis
    apply (rule exI[where x="newPackageJson env"])
    apply (rule exI[where x=rest])
    using pv ph
    apply (simp add: r f generateEvents_def generatedBundle_def)
    done
qed

theorem bundle_regenerated_before_decision_witness:
  "\<exists>manifest.
      fs (snd (main options5 False (scenario v015 v016 ''abc'' tenDays installedGood) emptyWorld))
         RegistryOutputPath =
        [(''package.json'', JSON_stringify manifest),
         (''index.json'', exampleIndex),
         (''README.md'', readme)]
    \<and> property manifest ''version'' = Some (JString ''0.1.6'')
    \<and> property manifest ''typesPublisherContentHash'' = Some (JString ''xyz'')"
proof -
  let ?env = "scenario v015 v016 ''abc'' tenDays installedGood"
  have b: "patch (version (npmInfo ?env)) < 9007199254740992" by simp
  have st: "isAWeekAfter (dateNow ?env) (lastModified (npmInfo ?env))"
    by (simp add: stale_tenDays)
  have ma: "major (version (npmInfo ?env)) = 0" and mi: "minor (version (npmInfo ?env)) = 1"
    by simp_all
  have vs: "versionString (v015\<lparr>patch := 6\<rparr>) = ''0.1.6''"
    by (simp add: versionString_def show_nat.simps)
  from bundle_regenerated_before_decision[OF st ma mi b, of options5 False emptyWorld]
  obtain manifest rest where
    "property manifest ''version'' =
       Some (JString (versionString ((version (npmInfo ?env))\<lparr>patch := patch (version (npmInfo ?env)) + 1\<rparr>)))"
    "property manifest ''typesPublisherContentHash'' = Some (JString (newContentHash ?env))"
    "fs (snd (main options5 False ?env emptyWorld)) RegistryOutputPath =
             [(''package.json'', JSON_stringify manifest),
              (''index.json'', newRegistry ?env),
              (''README.md'', readme)]"
    by blast
  then have "fs (snd (main options5 False ?env emptyWorld)) RegistryOutputPath =
        [(''package.json'', JSON_stringify manifest),
         (''index.json'', exampleIndex),
         (''README.md'', readme)]
    \<and> property manifest ''version'' = Some (JString ''0.1.6'')
    \<and> property manifest ''typesPublisherContentHash'' = Some (JString ''xyz'')"
    by (simp add: vs newContentHash_scenario newRegistry_scenario)
  then show ?thesis by blast
qed

end
